theory Spec2Isabelle
  imports Main
begin

section \<open>Object shapes\<close>

text \<open>
  The two controllers of the repository, \<^verbatim>\<open>pkg/controllers/serviceexport\<close> and
  \<^verbatim>\<open>pkg/controllers/endpointslice\<close>, are embedded as functions over an explicit
  \<open>world\<close>: the member-cluster store, the hub-cluster store, a script of injected
  store failures and the log of write calls issued so far. Go structs are records,
  the embedded \<^verbatim>\<open>metav1.ObjectMeta\<close> is the common root record, label maps are
  partial functions and every \<^verbatim>\<open>error\<close> return is a \<open>store_error option\<close>
  (\<open>None\<close> is Go's \<^verbatim>\<open>nil\<close>).
\<close>

type_synonym key = "string \<times> string"

record ObjectMeta =
  Namespace :: string
  Name :: string
  Labels :: "string \<rightharpoonup> string"
  Finalizers :: "string list"
  DeletionTimestamp :: "nat option"
  ResourceVersion :: string
  Generation :: int
  UID :: string

datatype ConditionStatus = ConditionTrue | ConditionFalse | ConditionUnknown

record Condition =
  Type :: string
  Status :: ConditionStatus
  LastTransitionTime :: nat
  Reason :: string
  Message :: string

text \<open>\<^verbatim>\<open>ServicePort\<close> of \<^verbatim>\<open>api/v1alpha1/internalserviceexport_types.go\<close>; the
  \<^verbatim>\<open>int32\<close> port is never computed with, so it is an \<open>int\<close>.\<close>

record ServicePort =
  PortName :: string
  Protocol :: string
  AppProtocol :: string
  Port :: int
  TargetPort :: "int + string"

text \<open>\<open>Conditions\<close> stands for \<^verbatim>\<open>Status.Conditions\<close>, \<open>SvcPorts\<close> for
  \<^verbatim>\<open>Spec.Ports\<close> of the Service and \<open>ExportedPorts\<close> for \<^verbatim>\<open>Spec.Ports\<close> of the
  InternalServiceExport.\<close>

record ServiceExport = ObjectMeta +
  Conditions :: "Condition list"

record Service = ObjectMeta +
  SvcPorts :: "ServicePort list"

record InternalServiceExport = ObjectMeta +
  ExportedPorts :: "ServicePort list"

text \<open>\<^verbatim>\<open>discoveryv1.EndpointSlice\<close>: the type meta, the address type, the
  endpoints (their addresses) and the ports (name, protocol, number).\<close>

type_synonym Endpoint = "string list"
type_synonym EndpointPort = "string \<times> string \<times> int"

record EndpointSlice = ObjectMeta +
  APIVersion :: string
  Kind :: string
  AddressType :: string
  Endpoints :: "Endpoint list"
  Ports :: "EndpointPort list"

text \<open>\<^verbatim>\<open>ExportedObjectReference\<close> and \<^verbatim>\<open>EndpointSliceExportSpec\<close>; the fields of
  the reference carry the prefix \<open>Ref\<close> and those of the spec the prefix \<open>Spec\<close>,
  since \<open>Namespace\<close>, \<open>Name\<close>, \<open>Endpoints\<close> and \<open>Ports\<close> are taken.\<close>

record ExportedObjectReference =
  RefClusterID :: string
  RefAPIVersion :: string
  RefKind :: string
  RefNamespace :: string
  RefName :: string
  RefResourceVersion :: string
  RefGeneration :: int
  RefUID :: string

record EndpointSliceExportSpec =
  SpecAddressType :: string
  SpecEndpoints :: "Endpoint list"
  SpecPorts :: "EndpointPort list"
  EndpointSliceReference :: ExportedObjectReference

record EndpointSliceExport = ObjectMeta +
  Spec :: EndpointSliceExportSpec

section \<open>What the sources leave out\<close>

text \<open>
  The constants of \<^verbatim>\<open>api/v1alpha1/serviceexport_types.go\<close> and the helpers of the two
  packages' \<^verbatim>\<open>utils.go\<close> are not among the sources. The constants and the policy
  functions are parameters, collected in one record and passed to every function
  that uses them.
\<close>

record env =
  svcExportCleanupFinalizer :: string
  ServiceExportValid :: string
  ServiceExportConflict :: string
  isSvcEligibleForExport :: "Service \<Rightarrow> bool"
  isEndpointSlicePermanentlyUnexportable :: "EndpointSlice \<Rightarrow> bool"
  formatFleetUniqueName :: "string \<Rightarrow> EndpointSlice \<Rightarrow> string"
  extractEndpointsFromEndpointSlice :: "EndpointSlice \<Rightarrow> Endpoint list"

text \<open>Modelled from the spec: \<^verbatim>\<open>hasSvcExportCleanupFinalizer\<close> is missing; the
  spec's "the intent carries the cleanup marker", the marker being one of the
  intent's finalizers.\<close>

definition hasSvcExportCleanupFinalizer :: "env \<Rightarrow> ServiceExport \<Rightarrow> bool" where
  "hasSvcExportCleanupFinalizer E svcExport \<longleftrightarrow>
     svcExportCleanupFinalizer E \<in> set (Finalizers svcExport)"

text \<open>Modelled from the spec: \<^verbatim>\<open>isSvcExportCleanupNeeded\<close> is missing; the spec's
  "the intent carries the cleanup marker and is scheduled for deletion".\<close>

definition isSvcExportCleanupNeeded :: "env \<Rightarrow> ServiceExport \<Rightarrow> bool" where
  "isSvcExportCleanupNeeded E svcExport \<longleftrightarrow>
     hasSvcExportCleanupFinalizer E svcExport \<and> DeletionTimestamp svcExport \<noteq> None"

text \<open>Modelled from the spec: \<^verbatim>\<open>isSvcDeleted\<close> is missing; the spec's "[the Source
  Object is] itself marked deleted".\<close>

definition isSvcDeleted :: "Service \<Rightarrow> bool" where
  "isSvcDeleted svc \<longleftrightarrow> DeletionTimestamp svc \<noteq> None"

text \<open>Modelled from the spec: \<^verbatim>\<open>formatInternalSvcExportName\<close> is missing; the spec
  makes the name a deterministic function of the intent's identity, and the comment
  in \<^verbatim>\<open>unexportSvc\<close> fixes the format: "Services are always exported using the name
  format ORIGINAL_NAMESPACE-ORIGINAL_NAME; for example, a Service from namespace
  default with the name store will be exported with the name default-store".\<close>

definition formatInternalSvcExportName :: "ServiceExport \<Rightarrow> string" where
  "formatInternalSvcExportName svcExport = Namespace svcExport @ ''-'' @ Name svcExport"

section \<open>The object store clients\<close>

text \<open>
  \<^verbatim>\<open>client.Client\<close> is an external interface; its contract is the one of the
  spec's section 6: \<^verbatim>\<open>get\<close> answers an object or NotFound, \<^verbatim>\<open>create\<close> and
  \<^verbatim>\<open>update\<close> answer success or an error, \<^verbatim>\<open>delete\<close> answers success or NotFound.
  Conflicts and infrastructure errors are not decided by the stores' contents, so
  they come from \<open>faults\<close>: every call takes the next entry of the script, and an
  entry \<open>Some e\<close> makes that call fail with \<open>e\<close> and change nothing. An empty script
  is a run without injected failures. Every write call is logged with its outcome.

  Two validations of the Kubernetes API server bear on what the ServiceExport
  controller sends, and the stores answer \<open>Invalid\<close> as the server does: a create of
  an object without a name is refused (\<^verbatim>\<open>metadata.name: Required value\<close>), and so is
  an update that adds a finalizer to an object that is being deleted
  (\<^verbatim>\<open>metadata.finalizers: Forbidden\<close>). The EndpointSlice controller changes labels
  only and names its hub object from the label, so its calls are not checked.
\<close>

datatype store_error = NotFound | AlreadyExists | Conflict | Unavailable | Invalid

datatype event =
    MemberUpdateSvcExport ServiceExport "store_error option"
  | MemberUpdateEndpointSlice EndpointSlice "store_error option"
  | HubCreateInternalSvcExport InternalServiceExport "store_error option"
  | HubUpdateInternalSvcExport InternalServiceExport "store_error option"
  | HubDeleteInternalSvcExport key "store_error option"
  | HubCreateEndpointSliceExport EndpointSliceExport "store_error option"
  | HubUpdateEndpointSliceExport EndpointSliceExport "store_error option"
  | HubDeleteEndpointSliceExport key "store_error option"

record world =
  memberSvcExports :: "key \<rightharpoonup> ServiceExport"
  memberSvcs :: "key \<rightharpoonup> Service"
  memberEndpointSlices :: "key \<rightharpoonup> EndpointSlice"
  hubInternalSvcExports :: "key \<rightharpoonup> InternalServiceExport"
  hubEndpointSliceExports :: "key \<rightharpoonup> EndpointSliceExport"
  faults :: "store_error option list"
  trace :: "event list"
  clock :: nat

definition nextFault :: "world \<Rightarrow> store_error option \<times> world" where
  "nextFault w = (case faults w of [] \<Rightarrow> (None, w) | f # fs \<Rightarrow> (f, w\<lparr>faults := fs\<rparr>))"

definition logEvent :: "event \<Rightarrow> world \<Rightarrow> world" where
  "logEvent e w = w\<lparr>trace := trace w @ [e]\<rparr>"

definition objectKey :: "'a ObjectMeta_scheme \<Rightarrow> key" where
  "objectKey obj = (Namespace obj, Name obj)"

text \<open>\<^verbatim>\<open>client.IgnoreNotFound\<close>.\<close>

fun IgnoreNotFound :: "store_error option \<Rightarrow> store_error option" where
  "IgnoreNotFound (Some NotFound) = None"
| "IgnoreNotFound err = err"

definition memberGetSvcExport :: "world \<Rightarrow> key \<Rightarrow> (store_error + ServiceExport) \<times> world" where
  "memberGetSvcExport w k =
     (case nextFault w of
        (Some e, w1) \<Rightarrow> (Inl e, w1)
      | (None, w1) \<Rightarrow>
          (case memberSvcExports w1 k of
             None \<Rightarrow> (Inl NotFound, w1)
           | Some obj \<Rightarrow> (Inr obj, w1)))"

definition memberGetSvc :: "world \<Rightarrow> key \<Rightarrow> (store_error + Service) \<times> world" where
  "memberGetSvc w k =
     (case nextFault w of
        (Some e, w1) \<Rightarrow> (Inl e, w1)
      | (None, w1) \<Rightarrow>
          (case memberSvcs w1 k of
             None \<Rightarrow> (Inl NotFound, w1)
           | Some obj \<Rightarrow> (Inr obj, w1)))"

definition memberGetEndpointSlice :: "world \<Rightarrow> key \<Rightarrow> (store_error + EndpointSlice) \<times> world" where
  "memberGetEndpointSlice w k =
     (case nextFault w of
        (Some e, w1) \<Rightarrow> (Inl e, w1)
      | (None, w1) \<Rightarrow>
          (case memberEndpointSlices w1 k of
             None \<Rightarrow> (Inl NotFound, w1)
           | Some obj \<Rightarrow> (Inr obj, w1)))"

definition memberUpdateSvcExport :: "world \<Rightarrow> ServiceExport \<Rightarrow> store_error option \<times> world" where
  "memberUpdateSvcExport w obj =
     (case nextFault w of
        (Some e, w1) \<Rightarrow> (Some e, logEvent (MemberUpdateSvcExport obj (Some e)) w1)
      | (None, w1) \<Rightarrow>
          (case memberSvcExports w1 (objectKey obj) of
             None \<Rightarrow> (Some NotFound, logEvent (MemberUpdateSvcExport obj (Some NotFound)) w1)
           | Some stored \<Rightarrow>
               if DeletionTimestamp stored \<noteq> None
                  \<and> \<not> set (Finalizers obj) \<subseteq> set (Finalizers stored)
               then (Some Invalid, logEvent (MemberUpdateSvcExport obj (Some Invalid)) w1)
               else
                 (None, logEvent (MemberUpdateSvcExport obj None)
                    (w1\<lparr>memberSvcExports := (memberSvcExports w1)(objectKey obj \<mapsto> obj)\<rparr>))))"

definition memberUpdateEndpointSlice :: "world \<Rightarrow> EndpointSlice \<Rightarrow> store_error option \<times> world" where
  "memberUpdateEndpointSlice w obj =
     (case nextFault w of
        (Some e, w1) \<Rightarrow> (Some e, logEvent (MemberUpdateEndpointSlice obj (Some e)) w1)
      | (None, w1) \<Rightarrow>
          (case memberEndpointSlices w1 (objectKey obj) of
             None \<Rightarrow> (Some NotFound, logEvent (MemberUpdateEndpointSlice obj (Some NotFound)) w1)
           | Some _ \<Rightarrow>
               (None, logEvent (MemberUpdateEndpointSlice obj None)
                  (w1\<lparr>memberEndpointSlices := (memberEndpointSlices w1)(objectKey obj \<mapsto> obj)\<rparr>))))"

definition hubGetInternalSvcExport ::
  "world \<Rightarrow> key \<Rightarrow> (store_error + InternalServiceExport) \<times> world" where
  "hubGetInternalSvcExport w k =
     (case nextFault w of
        (Some e, w1) \<Rightarrow> (Inl e, w1)
      | (None, w1) \<Rightarrow>
          (case hubInternalSvcExports w1 k of
             None \<Rightarrow> (Inl NotFound, w1)
           | Some obj \<Rightarrow> (Inr obj, w1)))"

definition hubCreateInternalSvcExport ::
  "world \<Rightarrow> InternalServiceExport \<Rightarrow> store_error option \<times> world" where
  "hubCreateInternalSvcExport w obj =
     (case nextFault w of
        (Some e, w1) \<Rightarrow> (Some e, logEvent (HubCreateInternalSvcExport obj (Some e)) w1)
      | (None, w1) \<Rightarrow>
          if Name obj = [] then
            (Some Invalid, logEvent (HubCreateInternalSvcExport obj (Some Invalid)) w1)
          else
            (case hubInternalSvcExports w1 (objectKey obj) of
               Some _ \<Rightarrow>
                 (Some AlreadyExists,
                  logEvent (HubCreateInternalSvcExport obj (Some AlreadyExists)) w1)
             | None \<Rightarrow>
                 (None, logEvent (HubCreateInternalSvcExport obj None)
                    (w1\<lparr>hubInternalSvcExports :=
                          (hubInternalSvcExports w1)(objectKey obj \<mapsto> obj)\<rparr>))))"

definition hubUpdateInternalSvcExport ::
  "world \<Rightarrow> InternalServiceExport \<Rightarrow> store_error option \<times> world" where
  "hubUpdateInternalSvcExport w obj =
     (case nextFault w of
        (Some e, w1) \<Rightarrow> (Some e, logEvent (HubUpdateInternalSvcExport obj (Some e)) w1)
      | (None, w1) \<Rightarrow>
          (case hubInternalSvcExports w1 (objectKey obj) of
             None \<Rightarrow>
               (Some NotFound, logEvent (HubUpdateInternalSvcExport obj (Some NotFound)) w1)
           | Some _ \<Rightarrow>
               (None, logEvent (HubUpdateInternalSvcExport obj None)
                  (w1\<lparr>hubInternalSvcExports := (hubInternalSvcExports w1)(objectKey obj \<mapsto> obj)\<rparr>))))"

definition hubDeleteInternalSvcExport :: "world \<Rightarrow> key \<Rightarrow> store_error option \<times> world" where
  "hubDeleteInternalSvcExport w k =
     (case nextFault w of
        (Some e, w1) \<Rightarrow> (Some e, logEvent (HubDeleteInternalSvcExport k (Some e)) w1)
      | (None, w1) \<Rightarrow>
          (case hubInternalSvcExports w1 k of
             None \<Rightarrow> (Some NotFound, logEvent (HubDeleteInternalSvcExport k (Some NotFound)) w1)
           | Some _ \<Rightarrow>
               (None, logEvent (HubDeleteInternalSvcExport k None)
                  (w1\<lparr>hubInternalSvcExports := (hubInternalSvcExports w1)(k := None)\<rparr>))))"

definition hubGetEndpointSliceExport ::
  "world \<Rightarrow> key \<Rightarrow> (store_error + EndpointSliceExport) \<times> world" where
  "hubGetEndpointSliceExport w k =
     (case nextFault w of
        (Some e, w1) \<Rightarrow> (Inl e, w1)
      | (None, w1) \<Rightarrow>
          (case hubEndpointSliceExports w1 k of
             None \<Rightarrow> (Inl NotFound, w1)
           | Some obj \<Rightarrow> (Inr obj, w1)))"

definition hubCreateEndpointSliceExport ::
  "world \<Rightarrow> EndpointSliceExport \<Rightarrow> store_error option \<times> world" where
  "hubCreateEndpointSliceExport w obj =
     (case nextFault w of
        (Some e, w1) \<Rightarrow> (Some e, logEvent (HubCreateEndpointSliceExport obj (Some e)) w1)
      | (None, w1) \<Rightarrow>
          (case hubEndpointSliceExports w1 (objectKey obj) of
             Some _ \<Rightarrow>
               (Some AlreadyExists,
                logEvent (HubCreateEndpointSliceExport obj (Some AlreadyExists)) w1)
           | None \<Rightarrow>
               (None, logEvent (HubCreateEndpointSliceExport obj None)
                  (w1\<lparr>hubEndpointSliceExports :=
                        (hubEndpointSliceExports w1)(objectKey obj \<mapsto> obj)\<rparr>))))"

definition hubUpdateEndpointSliceExport ::
  "world \<Rightarrow> EndpointSliceExport \<Rightarrow> store_error option \<times> world" where
  "hubUpdateEndpointSliceExport w obj =
     (case nextFault w of
        (Some e, w1) \<Rightarrow> (Some e, logEvent (HubUpdateEndpointSliceExport obj (Some e)) w1)
      | (None, w1) \<Rightarrow>
          (case hubEndpointSliceExports w1 (objectKey obj) of
             None \<Rightarrow>
               (Some NotFound, logEvent (HubUpdateEndpointSliceExport obj (Some NotFound)) w1)
           | Some _ \<Rightarrow>
               (None, logEvent (HubUpdateEndpointSliceExport obj None)
                  (w1\<lparr>hubEndpointSliceExports :=
                        (hubEndpointSliceExports w1)(objectKey obj \<mapsto> obj)\<rparr>))))"

definition hubDeleteEndpointSliceExport :: "world \<Rightarrow> key \<Rightarrow> store_error option \<times> world" where
  "hubDeleteEndpointSliceExport w k =
     (case nextFault w of
        (Some e, w1) \<Rightarrow> (Some e, logEvent (HubDeleteEndpointSliceExport k (Some e)) w1)
      | (None, w1) \<Rightarrow>
          (case hubEndpointSliceExports w1 k of
             None \<Rightarrow> (Some NotFound, logEvent (HubDeleteEndpointSliceExport k (Some NotFound)) w1)
           | Some _ \<Rightarrow>
               (None, logEvent (HubDeleteEndpointSliceExport k None)
                  (w1\<lparr>hubEndpointSliceExports := (hubEndpointSliceExports w1)(k := None)\<rparr>))))"

section \<open>The ServiceExport controller\<close>

record SvcExportReconciler =
  hubNS :: string

text \<open>\<^verbatim>\<open>removeSvcExportCleanupFinalizer\<close>: the loop keeps every finalizer other than
  the cleanup finalizer, in order; the object is then written to the member store.
  The functions that change the ServiceExport behind its pointer return the changed
  object beside the error.\<close>

definition removeSvcExportCleanupFinalizer ::
  "env \<Rightarrow> world \<Rightarrow> ServiceExport \<Rightarrow> (store_error option \<times> ServiceExport) \<times> world" where
  "removeSvcExportCleanupFinalizer E w svcExport =
     (let updatedFinalizers =
            filter (\<lambda>finalizer. finalizer \<noteq> svcExportCleanupFinalizer E) (Finalizers svcExport);
          svcExport' = svcExport\<lparr>Finalizers := updatedFinalizers\<rparr>
      in case memberUpdateSvcExport w svcExport' of (err, w1) \<Rightarrow> ((err, svcExport'), w1))"

text \<open>\<^verbatim>\<open>unexportSvc\<close>: any error of the hub delete returns at once, through
  \<^verbatim>\<open>client.IgnoreNotFound\<close>; the finalizer is removed only after a delete that
  returned \<^verbatim>\<open>nil\<close>.\<close>

definition unexportSvc ::
  "env \<Rightarrow> SvcExportReconciler \<Rightarrow> world \<Rightarrow> ServiceExport
     \<Rightarrow> (store_error option \<times> ServiceExport) \<times> world" where
  "unexportSvc E r w svcExport =
     (let internalSvcExportName = formatInternalSvcExportName svcExport
      in case hubDeleteInternalSvcExport w (hubNS r, internalSvcExportName) of
           (Some err, w1) \<Rightarrow> ((IgnoreNotFound (Some err), svcExport), w1)
         | (None, w1) \<Rightarrow> removeSvcExportCleanupFinalizer E w1 svcExport)"

definition markSvcExportAsInvalidSvcNotFound ::
  "env \<Rightarrow> world \<Rightarrow> ServiceExport \<Rightarrow> (store_error option \<times> ServiceExport) \<times> world" where
  "markSvcExportAsInvalidSvcNotFound E w svcExport =
     (let updatedConds =
            filter (\<lambda>cond. Type cond \<noteq> ServiceExportValid E) (Conditions svcExport)
            @ [\<lparr>Type = ServiceExportValid E,
                Status = ConditionFalse,
                LastTransitionTime = clock w,
                Reason = ''ServiceNotFound'',
                Message = ''service '' @ Namespace svcExport @ ''/'' @ Name svcExport
                            @ '' is not found''\<rparr>];
          svcExport' = svcExport\<lparr>Conditions := updatedConds\<rparr>
      in case memberUpdateSvcExport w svcExport' of (err, w1) \<Rightarrow> ((err, svcExport'), w1))"

definition markSvcExportAsInvalidSvcIneligible ::
  "env \<Rightarrow> world \<Rightarrow> ServiceExport \<Rightarrow> (store_error option \<times> ServiceExport) \<times> world" where
  "markSvcExportAsInvalidSvcIneligible E w svcExport =
     (let updatedConds =
            filter (\<lambda>cond. Type cond \<noteq> ServiceExportValid E) (Conditions svcExport)
            @ [\<lparr>Type = ServiceExportValid E,
                Status = ConditionFalse,
                LastTransitionTime = clock w,
                Reason = ''ServiceIneligible'',
                Message = ''service '' @ Namespace svcExport @ ''/'' @ Name svcExport
                            @ '' is not eligible for export''\<rparr>];
          svcExport' = svcExport\<lparr>Conditions := updatedConds\<rparr>
      in case memberUpdateSvcExport w svcExport' of (err, w1) \<Rightarrow> ((err, svcExport'), w1))"

definition addCleanupFinalizer ::
  "env \<Rightarrow> world \<Rightarrow> ServiceExport \<Rightarrow> (store_error option \<times> ServiceExport) \<times> world" where
  "addCleanupFinalizer E w svcExport =
     (let updatedFinalizers = Finalizers svcExport @ [svcExportCleanupFinalizer E];
          svcExport' = svcExport\<lparr>Finalizers := updatedFinalizers\<rparr>
      in case memberUpdateSvcExport w svcExport' of (err, w1) \<Rightarrow> ((err, svcExport'), w1))"

text \<open>The zero value of \<^verbatim>\<open>fleetnetworkingapi.InternalServiceExport\<close>, which
  \<^verbatim>\<open>var internalSvcExport\<close> declares and a failed \<^verbatim>\<open>Get\<close> leaves in place.\<close>

definition zeroInternalSvcExport :: InternalServiceExport where
  "zeroInternalSvcExport =
     \<lparr>Namespace = [], Name = [], Labels = Map.empty, Finalizers = [],
      DeletionTimestamp = None, ResourceVersion = [], Generation = 0, UID = [],
      ExportedPorts = []\<rparr>"

text \<open>
  \<^verbatim>\<open>Reconcile\<close> of the ServiceExport controller. The switch on the Service lookup
  takes its first case on NotFound or on a Service with a deletion timestamp, its
  second on any other error. The call \<^verbatim>\<open>updateInternalSvcExport(&svc, &svcExport)\<close>
  receives the Service and the ServiceExport only; neither is read again, and the
  InternalServiceExport that is created or updated is the one the hub \<^verbatim>\<open>Get\<close>
  filled in, or the zero value.
\<close>

definition serviceexport_Reconcile ::
  "env \<Rightarrow> SvcExportReconciler \<Rightarrow> world \<Rightarrow> key \<Rightarrow> store_error option \<times> world" where
  "serviceexport_Reconcile E r w req =
     (case memberGetSvcExport w req of
        (Inl err, w1) \<Rightarrow> (IgnoreNotFound (Some err), w1)
      | (Inr svcExport, w1) \<Rightarrow>
          if isSvcExportCleanupNeeded E svcExport then
            (case unexportSvc E r w1 svcExport of ((err, _), w2) \<Rightarrow> (err, w2))
          else
            (case memberGetSvc w1 req of
               (got, w2) \<Rightarrow>
                 if got = Inl NotFound \<or> (case got of Inr svc \<Rightarrow> isSvcDeleted svc | Inl _ \<Rightarrow> False) then
                   (if hasSvcExportCleanupFinalizer E svcExport then
                      (case unexportSvc E r w2 svcExport of
                         ((Some err, _), w3) \<Rightarrow> (Some err, w3)
                       | ((None, svcExport'), w3) \<Rightarrow>
                           (case markSvcExportAsInvalidSvcNotFound E w3 svcExport' of
                              ((err, _), w4) \<Rightarrow> (err, w4)))
                    else
                      (case markSvcExportAsInvalidSvcNotFound E w2 svcExport of
                         ((err, _), w4) \<Rightarrow> (err, w4)))
                 else
                   (case got of
                      Inl err \<Rightarrow> (Some err, w2)
                    | Inr svc \<Rightarrow>
                        if \<not> isSvcEligibleForExport E svc then
                          (if hasSvcExportCleanupFinalizer E svcExport then
                             (case unexportSvc E r w2 svcExport of
                                ((Some err, _), w3) \<Rightarrow> (Some err, w3)
                              | ((None, svcExport'), w3) \<Rightarrow>
                                  (case markSvcExportAsInvalidSvcIneligible E w3 svcExport' of
                                     ((err, _), w4) \<Rightarrow> (err, w4)))
                           else
                             (case markSvcExportAsInvalidSvcIneligible E w2 svcExport of
                                ((err, _), w4) \<Rightarrow> (err, w4)))
                        else
                          (case (if \<not> hasSvcExportCleanupFinalizer E svcExport
                                 then addCleanupFinalizer E w2 svcExport
                                 else ((None, svcExport), w2)) of
                             ((Some err, _), w3) \<Rightarrow> (Some err, w3)
                           | ((None, svcExport'), w3) \<Rightarrow>
                               (case hubGetInternalSvcExport w3
                                       (hubNS r, formatInternalSvcExportName svcExport') of
                                  (Inl NotFound, w4) \<Rightarrow>
                                    hubCreateInternalSvcExport w4 zeroInternalSvcExport
                                | (Inl _, w4) \<Rightarrow>
                                    hubUpdateInternalSvcExport w4 zeroInternalSvcExport
                                | (Inr internalSvcExport, w4) \<Rightarrow>
                                    hubUpdateInternalSvcExport w4 internalSvcExport)))))"

section \<open>The EndpointSlice controller\<close>

definition endpointSliceUniqueNameLabel :: string where
  "endpointSliceUniqueNameLabel = ''networking.fleet.azure.com/fleet-unique-name''"

text \<open>\<^verbatim>\<open>discoveryv1.LabelServiceName\<close> and \<^verbatim>\<open>discoveryv1.AddressTypeIPv4\<close>, constants
  of the Kubernetes API.\<close>

definition LabelServiceName :: string where
  "LabelServiceName = ''kubernetes.io/service-name''"

definition AddressTypeIPv4 :: string where
  "AddressTypeIPv4 = ''IPv4''"

datatype skipOrUnexportEndpointSliceOp =
    shouldSkipEndpointSliceOp
  | shouldUnexportEndpointSliceOp
  | noSkipOrUnexportNeededOp

record Reconciler =
  memberClusterID :: string
  hubNamespace :: string

text \<open>\<^verbatim>\<open>meta.FindStatusCondition\<close> of the Kubernetes API machinery: the first
  condition of the given type, if any.\<close>

definition FindStatusCondition :: "Condition list \<Rightarrow> string \<Rightarrow> Condition option" where
  "FindStatusCondition conditions conditionType =
     find (\<lambda>cond. Type cond = conditionType) conditions"

text \<open>The check of lines 254 to 258 of \<^verbatim>\<open>shouldSkipOrUnexportEndpointSlice\<close>, which
  the function computes into the local \<^verbatim>\<open>isValidWithNoConflict\<close>.\<close>

definition isValidWithNoConflict :: "env \<Rightarrow> ServiceExport \<Rightarrow> bool" where
  "isValidWithNoConflict E svcExport =
     (let validCond = FindStatusCondition (Conditions svcExport) (ServiceExportValid E);
          conflictCond = FindStatusCondition (Conditions svcExport) (ServiceExportConflict E);
          isValid = (case validCond of None \<Rightarrow> False | Some c \<Rightarrow> Status c = ConditionTrue);
          hasNoConflict = (case conflictCond of None \<Rightarrow> False | Some c \<Rightarrow> Status c = ConditionFalse)
      in isValid \<and> hasNoConflict)"

definition shouldSkipOrUnexportEndpointSlice ::
  "env \<Rightarrow> world \<Rightarrow> EndpointSlice
     \<Rightarrow> (skipOrUnexportEndpointSliceOp \<times> store_error option) \<times> world" where
  "shouldSkipOrUnexportEndpointSlice E w endpointSlice =
     (if isEndpointSlicePermanentlyUnexportable E endpointSlice then
        ((shouldSkipEndpointSliceOp, None), w)
      else
        let hasUniqueNameLabel = (Labels endpointSlice endpointSliceUniqueNameLabel \<noteq> None)
        in case Labels endpointSlice LabelServiceName of
             None \<Rightarrow>
               if \<not> hasUniqueNameLabel then ((shouldSkipEndpointSliceOp, None), w)
               else ((shouldUnexportEndpointSliceOp, None), w)
           | Some svcName \<Rightarrow>
               (case memberGetSvcExport w (Namespace endpointSlice, svcName) of
                  (Inl NotFound, w1) \<Rightarrow>
                    if hasUniqueNameLabel then ((shouldUnexportEndpointSliceOp, None), w1)
                    else ((shouldSkipEndpointSliceOp, None), w1)
                | (Inl err, w1) \<Rightarrow> ((noSkipOrUnexportNeededOp, Some err), w1)
                | (Inr svcExport, w1) \<Rightarrow>
                    if \<not> isValidWithNoConflict E svcExport then
                      (if hasUniqueNameLabel then ((shouldUnexportEndpointSliceOp, None), w1)
                       else ((shouldSkipEndpointSliceOp, None), w1))
                    else if hasUniqueNameLabel \<and> DeletionTimestamp endpointSlice \<noteq> None then
                      ((shouldUnexportEndpointSliceOp, None), w1)
                    else ((noSkipOrUnexportNeededOp, None), w1)))"

text \<open>\<^verbatim>\<open>unexportEndpointSlice\<close>: a NotFound of the hub delete is passed over, any
  other error returns; the label is then deleted on a copy, which is written to the
  member store. Reading a missing key of a Go map gives the empty string.\<close>

definition unexportEndpointSlice ::
  "Reconciler \<Rightarrow> world \<Rightarrow> EndpointSlice \<Rightarrow> store_error option \<times> world" where
  "unexportEndpointSlice r w endpointSlice =
     (let fleetUniqueName =
            (case Labels endpointSlice endpointSliceUniqueNameLabel of None \<Rightarrow> [] | Some n \<Rightarrow> n)
      in case hubDeleteEndpointSliceExport w (hubNamespace r, fleetUniqueName) of
           (err, w1) \<Rightarrow>
             if err \<noteq> None \<and> err \<noteq> Some NotFound then (err, w1)
             else
               let endpointSliceCopy =
                     endpointSlice\<lparr>Labels := (Labels endpointSlice)(endpointSliceUniqueNameLabel := None)\<rparr>
               in memberUpdateEndpointSlice w1 endpointSliceCopy)"

text \<open>\<^verbatim>\<open>assignUniqueNameAsLabel\<close>: the label is set on a copy, which is written to the
  member store; the slice the caller holds is unchanged. A \<^verbatim>\<open>nil\<close> label map and an
  empty one are the same partial function, so the initialisation of the map has no
  counterpart. The name is returned also when the update fails.\<close>

definition assignUniqueNameAsLabel ::
  "env \<Rightarrow> Reconciler \<Rightarrow> world \<Rightarrow> EndpointSlice \<Rightarrow> (string \<times> store_error option) \<times> world" where
  "assignUniqueNameAsLabel E r w endpointSlice =
     (let fleetUniqueName = formatFleetUniqueName E (memberClusterID r) endpointSlice;
          updatedEndpointSlice =
            endpointSlice\<lparr>Labels := (Labels endpointSlice)(endpointSliceUniqueNameLabel \<mapsto> fleetUniqueName)\<rparr>
      in case memberUpdateEndpointSlice w updatedEndpointSlice of
           (err, w1) \<Rightarrow> ((fleetUniqueName, err), w1))"

text \<open>
  \<^verbatim>\<open>controllerutil.CreateOrUpdate\<close> of controller-runtime, at the EndpointSliceExport
  type: it reads the object at the key of \<open>obj\<close>; on NotFound it applies the mutation
  and creates; on any other error it returns it; on an object it applies the
  mutation and updates unless the mutation changed nothing. The mutation of
  \<^verbatim>\<open>Reconcile\<close> sets \<^verbatim>\<open>Spec\<close>.
\<close>

definition CreateOrUpdate ::
  "world \<Rightarrow> EndpointSliceExport \<Rightarrow> (EndpointSliceExport \<Rightarrow> EndpointSliceExport)
     \<Rightarrow> store_error option \<times> world" where
  "CreateOrUpdate w obj f =
     (case hubGetEndpointSliceExport w (objectKey obj) of
        (Inl NotFound, w1) \<Rightarrow> hubCreateEndpointSliceExport w1 (f obj)
      | (Inl err, w1) \<Rightarrow> (Some err, w1)
      | (Inr existing, w1) \<Rightarrow>
          if f existing = existing then (None, w1)
          else hubUpdateEndpointSliceExport w1 (f existing))"

definition endpointslice_Reconcile ::
  "env \<Rightarrow> Reconciler \<Rightarrow> world \<Rightarrow> key \<Rightarrow> store_error option \<times> world" where
  "endpointslice_Reconcile E r w req =
     (case memberGetEndpointSlice w req of
        (Inl err, w1) \<Rightarrow> (IgnoreNotFound (Some err), w1)
      | (Inr endpointSlice, w1) \<Rightarrow>
          (case shouldSkipOrUnexportEndpointSlice E w1 endpointSlice of
             ((shouldSkipEndpointSliceOp, _), w2) \<Rightarrow> (None, w2)
           | ((shouldUnexportEndpointSliceOp, _), w2) \<Rightarrow> unexportEndpointSlice r w2 endpointSlice
           | ((noSkipOrUnexportNeededOp, Some err), w2) \<Rightarrow> (Some err, w2)
           | ((noSkipOrUnexportNeededOp, None), w2) \<Rightarrow>
               (case (case Labels endpointSlice endpointSliceUniqueNameLabel of
                        Some n \<Rightarrow> ((n, None), w2)
                      | None \<Rightarrow> assignUniqueNameAsLabel E r w2 endpointSlice) of
                  ((_, Some err), w3) \<Rightarrow> (Some err, w3)
                | ((fleetUniqueName, None), w3) \<Rightarrow>
                    let extractedEndpoints = extractEndpointsFromEndpointSlice E endpointSlice;
                        endpointSliceExport =
                          \<lparr>Namespace = hubNamespace r, Name = fleetUniqueName,
                           Labels = Map.empty, Finalizers = [], DeletionTimestamp = None,
                           ResourceVersion = [], Generation = 0, UID = [],
                           Spec = \<lparr>SpecAddressType = [], SpecEndpoints = [], SpecPorts = [],
                                   EndpointSliceReference =
                                     \<lparr>RefClusterID = [], RefAPIVersion = [], RefKind = [],
                                      RefNamespace = [], RefName = [], RefResourceVersion = [],
                                      RefGeneration = 0, RefUID = []\<rparr>\<rparr>\<rparr>
                    in CreateOrUpdate w3 endpointSliceExport
                         (\<lambda>export. export\<lparr>Spec :=
                            \<lparr>SpecAddressType = AddressTypeIPv4,
                             SpecEndpoints = extractedEndpoints,
                             SpecPorts = Ports endpointSlice,
                             EndpointSliceReference =
                               \<lparr>RefClusterID = memberClusterID r,
                                RefAPIVersion = APIVersion endpointSlice,
                                RefKind = Kind endpointSlice,
                                RefNamespace = Namespace endpointSlice,
                                RefName = Name endpointSlice,
                                RefResourceVersion = ResourceVersion endpointSlice,
                                RefGeneration = Generation endpointSlice,
                                RefUID = UID endpointSlice\<rparr>\<rparr>\<rparr>))))"

section \<open>The decision table of the specification\<close>

text \<open>
  The precedence table of the spec's section 4.2, row by row and in its order; the
  first row that matches gives the outcome, and \<open>None\<close> is a combination no row
  covers. The governing intent is missing, found but not valid, or valid.
\<close>

datatype intentValidity = IntentMissing | IntentNotValid | IntentValid

definition specDecisionTable ::
  "bool \<Rightarrow> bool \<Rightarrow> bool \<Rightarrow> intentValidity \<Rightarrow> bool \<Rightarrow> skipOrUnexportEndpointSliceOp option" where
  "specDecisionTable permanentlyIneligible hasSvcNameLabel hasUniqueNameLabel intent deleted =
     (if permanentlyIneligible then Some shouldSkipEndpointSliceOp
      else if \<not> hasSvcNameLabel \<and> \<not> hasUniqueNameLabel then Some shouldSkipEndpointSliceOp
      else if \<not> hasSvcNameLabel \<and> hasUniqueNameLabel then Some shouldUnexportEndpointSliceOp
      else if hasSvcNameLabel \<and> \<not> hasUniqueNameLabel \<and> intent = IntentMissing
        then Some shouldSkipEndpointSliceOp
      else if hasSvcNameLabel \<and> hasUniqueNameLabel \<and> intent = IntentMissing
        then Some shouldUnexportEndpointSliceOp
      else if hasSvcNameLabel \<and> \<not> hasUniqueNameLabel \<and> intent = IntentNotValid
        then Some shouldSkipEndpointSliceOp
      else if hasSvcNameLabel \<and> hasUniqueNameLabel \<and> intent = IntentNotValid
        then Some shouldUnexportEndpointSliceOp
      else if hasSvcNameLabel \<and> hasUniqueNameLabel \<and> intent = IntentValid \<and> deleted
        then Some shouldUnexportEndpointSliceOp
      else if hasSvcNameLabel \<and> intent = IntentValid \<and> \<not> deleted
        then Some noSkipOrUnexportNeededOp
      else None)"

text \<open>The answer of the member store to the lookup of the governing ServiceExport (no
  lookup is made for a slice without the service-name label), and the table's third
  input read off it under a given reading of "valid".\<close>

definition lookupGoverningIntent :: "world \<Rightarrow> EndpointSlice \<Rightarrow> store_error + ServiceExport" where
  "lookupGoverningIntent w endpointSlice =
     (case Labels endpointSlice LabelServiceName of
        None \<Rightarrow> Inl NotFound
      | Some svcName \<Rightarrow> fst (memberGetSvcExport w (Namespace endpointSlice, svcName)))"

definition governingIntentValidity ::
  "(ServiceExport \<Rightarrow> bool) \<Rightarrow> store_error + ServiceExport \<Rightarrow> intentValidity" where
  "governingIntentValidity valid got =
     (case got of
        Inl _ \<Rightarrow> IntentMissing
      | Inr svcExport \<Rightarrow> if valid svcExport then IntentValid else IntentNotValid)"

text \<open>The spec's words for "valid" in section 4.2: "the intent's condition set shows a
  positive validity condition True and no conflicting-export condition (if tracked)
  blocking it". A Conflict condition blocks when its status is True; where none is
  tracked, nothing blocks.\<close>

definition specIntentValid :: "env \<Rightarrow> ServiceExport \<Rightarrow> bool" where
  "specIntentValid E svcExport \<longleftrightarrow>
     (\<exists>c \<in> set (Conditions svcExport). Type c = ServiceExportValid E \<and> Status c = ConditionTrue)
     \<and> \<not> (\<exists>c \<in> set (Conditions svcExport).
            Type c = ServiceExportConflict E \<and> Status c = ConditionTrue)"

text \<open>The stricter reading: the Valid condition has status True and the Conflict
  condition is present with status False, "the" condition of a type being the first
  of that type in the list.\<close>

definition validAndConflictFalse :: "env \<Rightarrow> ServiceExport \<Rightarrow> bool" where
  "validAndConflictFalse E svcExport \<longleftrightarrow>
     (\<exists>v. find (\<lambda>c. Type c = ServiceExportValid E) (Conditions svcExport) = Some v
          \<and> Status v = ConditionTrue)
     \<and> (\<exists>c. find (\<lambda>c. Type c = ServiceExportConflict E) (Conditions svcExport) = Some c
          \<and> Status c = ConditionFalse)"

section \<open>The way of a pass without failures\<close>



section \<open>Events of a pass\<close>

text \<open>The write calls a pass issued, in order: what the log gained between the world
  before and the world after. A hub projection write is a create or an update of an
  InternalServiceExport.\<close>

definition eventsSince :: "world \<Rightarrow> world \<Rightarrow> event list" where
  "eventsSince w w' = drop (length (trace w)) (trace w')"

fun isHubProjectionWrite :: "event \<Rightarrow> bool" where
  "isHubProjectionWrite (HubCreateInternalSvcExport _ _) = True"
| "isHubProjectionWrite (HubUpdateInternalSvcExport _ _) = True"
| "isHubProjectionWrite _ = False"

fun isHubEvent :: "event \<Rightarrow> bool" where
  "isHubEvent (MemberUpdateSvcExport _ _) = False"
| "isHubEvent (MemberUpdateEndpointSlice _ _) = False"
| "isHubEvent _ = True"

section \<open>Example objects\<close>

text \<open>One member cluster \<open>m1\<close> with the hub namespace \<open>hub\<close>, a ServiceExport and a
  Service \<open>default/store\<close>, and an EndpointSlice \<open>default/store-abc\<close>. The example
  policies: a Service is eligible when it has a port, an EndpointSlice is permanently
  unexportable when its address type is not IPv4, and the unique name joins cluster,
  namespace and name with dashes.\<close>

definition exampleEnv :: env where
  "exampleEnv =
     \<lparr>svcExportCleanupFinalizer = ''cleanup'',
      ServiceExportValid = ''Valid'',
      ServiceExportConflict = ''Conflict'',
      isSvcEligibleForExport = (\<lambda>svc. SvcPorts svc \<noteq> []),
      isEndpointSlicePermanentlyUnexportable = (\<lambda>endpointSlice. AddressType endpointSlice \<noteq> AddressTypeIPv4),
      formatFleetUniqueName =
        (\<lambda>clusterID endpointSlice. clusterID @ ''-'' @ Namespace endpointSlice @ ''-'' @ Name endpointSlice),
      extractEndpointsFromEndpointSlice = Endpoints\<rparr>"

definition exampleSvcExportReconciler :: SvcExportReconciler where
  "exampleSvcExportReconciler = \<lparr>hubNS = ''hub''\<rparr>"

definition exampleReconciler :: Reconciler where
  "exampleReconciler = \<lparr>memberClusterID = ''m1'', hubNamespace = ''hub''\<rparr>"

definition storeKey :: key where
  "storeKey = (''default'', ''store'')"

definition sliceKey :: key where
  "sliceKey = (''default'', ''store-abc'')"

definition svcExportOf :: "string \<Rightarrow> string \<Rightarrow> string list \<Rightarrow> nat option \<Rightarrow> Condition list \<Rightarrow> ServiceExport" where
  "svcExportOf ns n finalizers deleted conds =
     \<lparr>Namespace = ns, Name = n, Labels = Map.empty, Finalizers = finalizers,
      DeletionTimestamp = deleted, ResourceVersion = ''1'', Generation = 1, UID = ''u1'',
      Conditions = conds\<rparr>"

definition httpPort :: ServicePort where
  "httpPort = \<lparr>PortName = ''http'', Protocol = ''TCP'', AppProtocol = [], Port = 80,
      TargetPort = Inl 8080\<rparr>"

definition svcOf :: "ServicePort list \<Rightarrow> nat option \<Rightarrow> Service" where
  "svcOf ports deleted =
     \<lparr>Namespace = ''default'', Name = ''store'', Labels = Map.empty, Finalizers = [],
      DeletionTimestamp = deleted, ResourceVersion = ''1'', Generation = 1, UID = ''u2'',
      SvcPorts = ports\<rparr>"

definition internalSvcExportOf :: "ServicePort list \<Rightarrow> InternalServiceExport" where
  "internalSvcExportOf ports =
     \<lparr>Namespace = ''hub'', Name = ''default-store'', Labels = Map.empty, Finalizers = [],
      DeletionTimestamp = None, ResourceVersion = ''1'', Generation = 1, UID = ''u4'',
      ExportedPorts = ports\<rparr>"

definition sliceOf :: "(string \<rightharpoonup> string) \<Rightarrow> nat option \<Rightarrow> string \<Rightarrow> EndpointSlice" where
  "sliceOf labels deleted addressType =
     \<lparr>Namespace = ''default'', Name = ''store-abc'', Labels = labels, Finalizers = [],
      DeletionTimestamp = deleted, ResourceVersion = ''1'', Generation = 1, UID = ''u3'',
      APIVersion = ''discovery.k8s.io/v1'', Kind = ''EndpointSlice'',
      AddressType = addressType, Endpoints = [[''10.0.0.1'']], Ports = [(''http'', ''TCP'', 8080)]\<rparr>"

definition validCondition :: Condition where
  "validCondition = \<lparr>Type = ''Valid'', Status = ConditionTrue, LastTransitionTime = 1,
      Reason = ''ServiceIsValid'', Message = []\<rparr>"

definition noConflictCondition :: Condition where
  "noConflictCondition = \<lparr>Type = ''Conflict'', Status = ConditionFalse, LastTransitionTime = 1,
      Reason = ''NoConflictFound'', Message = []\<rparr>"

definition emptyWorld :: world where
  "emptyWorld =
     \<lparr>memberSvcExports = Map.empty, memberSvcs = Map.empty, memberEndpointSlices = Map.empty,
      hubInternalSvcExports = Map.empty, hubEndpointSliceExports = Map.empty,
      faults = [], trace = [], clock = 7\<rparr>"

text \<open>Worlds for the ServiceExport controller: a ServiceExport that is being deleted
  after an export the hub no longer holds; a ServiceExport for an eligible Service
  that was never exported; one whose Service is absent; one whose Service has no
  port; one that already carries a valid condition; and one whose hub projection
  holds no port although the Service has one.\<close>

definition worldDeletingExport :: world where
  "worldDeletingExport = emptyWorld\<lparr>memberSvcExports :=
      [storeKey \<mapsto> svcExportOf ''default'' ''store'' [''cleanup''] (Some 5) []]\<rparr>"

definition worldFreshExport :: world where
  "worldFreshExport = emptyWorld\<lparr>memberSvcExports :=
      [storeKey \<mapsto> svcExportOf ''default'' ''store'' [] None []],
      memberSvcs := [storeKey \<mapsto> svcOf [httpPort] None]\<rparr>"

definition worldNoService :: world where
  "worldNoService = emptyWorld\<lparr>memberSvcExports :=
      [storeKey \<mapsto> svcExportOf ''default'' ''store'' [] None []]\<rparr>"

definition worldIneligibleService :: world where
  "worldIneligibleService = emptyWorld\<lparr>memberSvcExports :=
      [storeKey \<mapsto> svcExportOf ''default'' ''store'' [] None []],
      memberSvcs := [storeKey \<mapsto> svcOf [] None]\<rparr>"

definition worldValidIntentNoService :: world where
  "worldValidIntentNoService = emptyWorld\<lparr>memberSvcExports :=
      [storeKey \<mapsto> svcExportOf ''default'' ''store'' [] None [validCondition, noConflictCondition]]\<rparr>"

definition worldStaleProjection :: world where
  "worldStaleProjection = emptyWorld\<lparr>memberSvcExports :=
      [storeKey \<mapsto> svcExportOf ''default'' ''store'' [''cleanup''] None []],
      memberSvcs := [storeKey \<mapsto> svcOf [httpPort] None],
      hubInternalSvcExports := [(''hub'', ''default-store'') \<mapsto> internalSvcExportOf []]\<rparr>"

text \<open>Slices in use by the Service \<open>store\<close> that were never exported: a live one, one
  marked for deletion, and one marked for deletion whose address type is IPv6. The
  worlds hold one slice and the ServiceExport with the given conditions.\<close>

definition sliceLiveUnlabelled :: EndpointSlice where
  "sliceLiveUnlabelled = sliceOf [LabelServiceName \<mapsto> ''store''] None AddressTypeIPv4"

definition sliceDeletedUnlabelled :: EndpointSlice where
  "sliceDeletedUnlabelled = sliceOf [LabelServiceName \<mapsto> ''store''] (Some 3) AddressTypeIPv4"

definition sliceDeletedUnlabelledIPv6 :: EndpointSlice where
  "sliceDeletedUnlabelledIPv6 = sliceOf [LabelServiceName \<mapsto> ''store''] (Some 3) ''IPv6''"

definition sliceWorld :: "EndpointSlice \<Rightarrow> Condition list \<Rightarrow> store_error option list \<Rightarrow> world" where
  "sliceWorld endpointSlice conds script = emptyWorld\<lparr>memberSvcExports :=
      [storeKey \<mapsto> svcExportOf ''default'' ''store'' [''cleanup''] None conds],
      memberEndpointSlices := [sliceKey \<mapsto> endpointSlice],
      faults := script\<rparr>"

section \<open>Runs without injected failures\<close>

text \<open>With an empty script every call answers from the stores alone.\<close>

lemma nextFault_none: "faults w = [] \<Longrightarrow> nextFault w = (None, w)"
  by (simp add: nextFault_def)

lemma memberGetSvcExport_quiet:
  "faults w = [] \<Longrightarrow> memberGetSvcExport w k =
     (case memberSvcExports w k of None \<Rightarrow> Inl NotFound | Some obj \<Rightarrow> Inr obj, w)"
  by (simp add: memberGetSvcExport_def nextFault_none split: option.splits)

lemma memberGetSvc_quiet:
  "faults w = [] \<Longrightarrow> memberGetSvc w k =
     (case memberSvcs w k of None \<Rightarrow> Inl NotFound | Some obj \<Rightarrow> Inr obj, w)"
  by (simp add: memberGetSvc_def nextFault_none split: option.splits)

lemma memberGetEndpointSlice_quiet:
  "faults w = [] \<Longrightarrow> memberGetEndpointSlice w k =
     (case memberEndpointSlices w k of None \<Rightarrow> Inl NotFound | Some obj \<Rightarrow> Inr obj, w)"
  by (simp add: memberGetEndpointSlice_def nextFault_none split: option.splits)

lemma hubGetInternalSvcExport_quiet:
  "faults w = [] \<Longrightarrow> hubGetInternalSvcExport w k =
     (case hubInternalSvcExports w k of None \<Rightarrow> Inl NotFound | Some obj \<Rightarrow> Inr obj, w)"
  by (simp add: hubGetInternalSvcExport_def nextFault_none split: option.splits)

lemma hubGetEndpointSliceExport_quiet:
  "faults w = [] \<Longrightarrow> hubGetEndpointSliceExport w k =
     (case hubEndpointSliceExports w k of None \<Rightarrow> Inl NotFound | Some obj \<Rightarrow> Inr obj, w)"
  by (simp add: hubGetEndpointSliceExport_def nextFault_none split: option.splits)

lemma memberUpdateSvcExport_quiet:
  "faults w = [] \<Longrightarrow> memberUpdateSvcExport w obj =
     (case memberSvcExports w (objectKey obj) of
        None \<Rightarrow> (Some NotFound, w\<lparr>trace := trace w @ [MemberUpdateSvcExport obj (Some NotFound)]\<rparr>)
      | Some stored \<Rightarrow>
          if DeletionTimestamp stored \<noteq> None
             \<and> \<not> set (Finalizers obj) \<subseteq> set (Finalizers stored)
          then (Some Invalid, w\<lparr>trace := trace w @ [MemberUpdateSvcExport obj (Some Invalid)]\<rparr>)
          else (None, w\<lparr>memberSvcExports := (memberSvcExports w)(objectKey obj \<mapsto> obj),
                         trace := trace w @ [MemberUpdateSvcExport obj None]\<rparr>))"
  by (simp add: memberUpdateSvcExport_def nextFault_none logEvent_def split: option.splits)

lemma memberUpdateEndpointSlice_quiet:
  "faults w = [] \<Longrightarrow> memberUpdateEndpointSlice w obj =
     (case memberEndpointSlices w (objectKey obj) of
        None \<Rightarrow> (Some NotFound, w\<lparr>trace := trace w @ [MemberUpdateEndpointSlice obj (Some NotFound)]\<rparr>)
      | Some _ \<Rightarrow> (None, w\<lparr>memberEndpointSlices := (memberEndpointSlices w)(objectKey obj \<mapsto> obj),
                           trace := trace w @ [MemberUpdateEndpointSlice obj None]\<rparr>))"
  by (simp add: memberUpdateEndpointSlice_def nextFault_none logEvent_def split: option.splits)

lemma hubCreateInternalSvcExport_quiet:
  "faults w = [] \<Longrightarrow> hubCreateInternalSvcExport w obj =
     (if Name obj = [] then
        (Some Invalid, w\<lparr>trace := trace w @ [HubCreateInternalSvcExport obj (Some Invalid)]\<rparr>)
      else
        (case hubInternalSvcExports w (objectKey obj) of
           Some _ \<Rightarrow> (Some AlreadyExists,
                      w\<lparr>trace := trace w @ [HubCreateInternalSvcExport obj (Some AlreadyExists)]\<rparr>)
         | None \<Rightarrow> (None, w\<lparr>hubInternalSvcExports := (hubInternalSvcExports w)(objectKey obj \<mapsto> obj),
                            trace := trace w @ [HubCreateInternalSvcExport obj None]\<rparr>)))"
  by (simp add: hubCreateInternalSvcExport_def nextFault_none logEvent_def split: option.splits)

lemma hubUpdateInternalSvcExport_quiet:
  "faults w = [] \<Longrightarrow> hubUpdateInternalSvcExport w obj =
     (case hubInternalSvcExports w (objectKey obj) of
        None \<Rightarrow> (Some NotFound,
                  w\<lparr>trace := trace w @ [HubUpdateInternalSvcExport obj (Some NotFound)]\<rparr>)
      | Some _ \<Rightarrow> (None, w\<lparr>hubInternalSvcExports := (hubInternalSvcExports w)(objectKey obj \<mapsto> obj),
                           trace := trace w @ [HubUpdateInternalSvcExport obj None]\<rparr>))"
  by (simp add: hubUpdateInternalSvcExport_def nextFault_none logEvent_def split: option.splits)

lemma hubDeleteInternalSvcExport_quiet:
  "faults w = [] \<Longrightarrow> hubDeleteInternalSvcExport w k =
     (case hubInternalSvcExports w k of
        None \<Rightarrow> (Some NotFound,
                  w\<lparr>trace := trace w @ [HubDeleteInternalSvcExport k (Some NotFound)]\<rparr>)
      | Some _ \<Rightarrow> (None, w\<lparr>hubInternalSvcExports := (hubInternalSvcExports w)(k := None),
                           trace := trace w @ [HubDeleteInternalSvcExport k None]\<rparr>))"
  by (simp add: hubDeleteInternalSvcExport_def nextFault_none logEvent_def split: option.splits)

lemma hubCreateEndpointSliceExport_quiet:
  "faults w = [] \<Longrightarrow> hubCreateEndpointSliceExport w obj =
     (case hubEndpointSliceExports w (objectKey obj) of
        Some _ \<Rightarrow> (Some AlreadyExists,
                   w\<lparr>trace := trace w @ [HubCreateEndpointSliceExport obj (Some AlreadyExists)]\<rparr>)
      | None \<Rightarrow> (None, w\<lparr>hubEndpointSliceExports := (hubEndpointSliceExports w)(objectKey obj \<mapsto> obj),
                         trace := trace w @ [HubCreateEndpointSliceExport obj None]\<rparr>))"
  by (simp add: hubCreateEndpointSliceExport_def nextFault_none logEvent_def split: option.splits)

lemmas quiet = memberGetSvcExport_quiet memberGetSvc_quiet memberGetEndpointSlice_quiet
  hubGetInternalSvcExport_quiet hubGetEndpointSliceExport_quiet memberUpdateSvcExport_quiet
  memberUpdateEndpointSlice_quiet hubCreateInternalSvcExport_quiet hubUpdateInternalSvcExport_quiet
  hubDeleteInternalSvcExport_quiet hubCreateEndpointSliceExport_quiet

lemmas svcdefs = serviceexport_Reconcile_def unexportSvc_def removeSvcExportCleanupFinalizer_def
  markSvcExportAsInvalidSvcNotFound_def markSvcExportAsInvalidSvcIneligible_def
  addCleanupFinalizer_def isSvcExportCleanupNeeded_def hasSvcExportCleanupFinalizer_def
  isSvcDeleted_def formatInternalSvcExportName_def zeroInternalSvcExport_def objectKey_def Let_def

lemmas slicedefs = endpointslice_Reconcile_def shouldSkipOrUnexportEndpointSlice_def
  unexportEndpointSlice_def assignUniqueNameAsLabel_def CreateOrUpdate_def
  isValidWithNoConflict_def FindStatusCondition_def objectKey_def Let_def
  LabelServiceName_def endpointSliceUniqueNameLabel_def AddressTypeIPv4_def

lemmas fixtures = exampleEnv_def exampleSvcExportReconciler_def exampleReconciler_def
  storeKey_def sliceKey_def svcExportOf_def svcOf_def internalSvcExportOf_def sliceOf_def
  emptyWorld_def httpPort_def validCondition_def noConflictCondition_def

section \<open>What each call changes\<close>

text \<open>Whatever the script holds, a read changes neither the log nor the stores, and
  a write appends exactly one event that carries its outcome.\<close>

lemma memberGetSvcExport_frame:
  assumes "memberGetSvcExport w k = (got, w1)"
  shows "trace w1 = trace w \<and> memberSvcExports w1 = memberSvcExports w
    \<and> memberEndpointSlices w1 = memberEndpointSlices w
    \<and> (\<forall>obj. got = Inr obj \<longrightarrow> memberSvcExports w k = Some obj)"
  using assms
  by (auto simp: memberGetSvcExport_def nextFault_def split: list.splits option.splits)

lemma memberGetSvc_frame:
  assumes "memberGetSvc w k = (got, w1)"
  shows "trace w1 = trace w \<and> memberSvcExports w1 = memberSvcExports w"
  using assms
  by (auto simp: memberGetSvc_def nextFault_def split: list.splits option.splits)

lemma hubGetInternalSvcExport_frame:
  assumes "hubGetInternalSvcExport w k = (got, w1)"
  shows "trace w1 = trace w \<and> memberSvcExports w1 = memberSvcExports w"
  using assms
  by (auto simp: hubGetInternalSvcExport_def nextFault_def split: list.splits option.splits)

lemma memberUpdateSvcExport_frame:
  assumes "memberUpdateSvcExport w obj = (err, w1)"
  shows "trace w1 = trace w @ [MemberUpdateSvcExport obj err]
    \<and> memberSvcExports w1 =
        (if err = None then (memberSvcExports w)(objectKey obj \<mapsto> obj) else memberSvcExports w)"
  using assms
  by (auto simp: memberUpdateSvcExport_def nextFault_def logEvent_def
      split: list.splits option.splits if_splits)

lemma hubCreateInternalSvcExport_frame:
  assumes "hubCreateInternalSvcExport w obj = (err, w1)"
  shows "trace w1 = trace w @ [HubCreateInternalSvcExport obj err]
    \<and> memberSvcExports w1 = memberSvcExports w"
  using assms
  by (auto simp: hubCreateInternalSvcExport_def nextFault_def logEvent_def
      split: list.splits option.splits if_splits)

lemma hubUpdateInternalSvcExport_frame:
  assumes "hubUpdateInternalSvcExport w obj = (err, w1)"
  shows "trace w1 = trace w @ [HubUpdateInternalSvcExport obj err]
    \<and> memberSvcExports w1 = memberSvcExports w"
  using assms
  by (auto simp: hubUpdateInternalSvcExport_def nextFault_def logEvent_def
      split: list.splits option.splits)

lemma hubDeleteInternalSvcExport_frame:
  assumes "hubDeleteInternalSvcExport w k = (err, w1)"
  shows "trace w1 = trace w @ [HubDeleteInternalSvcExport k err]
    \<and> memberSvcExports w1 = memberSvcExports w"
  using assms
  by (auto simp: hubDeleteInternalSvcExport_def nextFault_def logEvent_def
      split: list.splits option.splits)

lemma memberGetEndpointSlice_frame:
  assumes "memberGetEndpointSlice w k = (got, w1)"
  shows "trace w1 = trace w \<and> memberEndpointSlices w1 = memberEndpointSlices w"
  using assms
  by (auto simp: memberGetEndpointSlice_def nextFault_def split: list.splits option.splits)

lemma memberUpdateEndpointSlice_frame:
  assumes "memberUpdateEndpointSlice w obj = (err, w1)"
  shows "trace w1 = trace w @ [MemberUpdateEndpointSlice obj err]
    \<and> memberEndpointSlices w1 =
        (if err = None then (memberEndpointSlices w)(objectKey obj \<mapsto> obj)
         else memberEndpointSlices w)"
  using assms
  by (auto simp: memberUpdateEndpointSlice_def nextFault_def logEvent_def
      split: list.splits option.splits)

lemma hubGetEndpointSliceExport_frame:
  assumes "hubGetEndpointSliceExport w k = (got, w1)"
  shows "trace w1 = trace w \<and> memberEndpointSlices w1 = memberEndpointSlices w"
  using assms
  by (auto simp: hubGetEndpointSliceExport_def nextFault_def split: list.splits option.splits)

lemma hubCreateEndpointSliceExport_frame:
  assumes "hubCreateEndpointSliceExport w obj = (err, w1)"
  shows "trace w1 = trace w @ [HubCreateEndpointSliceExport obj err]
    \<and> memberEndpointSlices w1 = memberEndpointSlices w"
  using assms
  by (auto simp: hubCreateEndpointSliceExport_def nextFault_def logEvent_def
      split: list.splits option.splits)

lemma hubUpdateEndpointSliceExport_frame:
  assumes "hubUpdateEndpointSliceExport w obj = (err, w1)"
  shows "trace w1 = trace w @ [HubUpdateEndpointSliceExport obj err]
    \<and> memberEndpointSlices w1 = memberEndpointSlices w"
  using assms
  by (auto simp: hubUpdateEndpointSliceExport_def nextFault_def logEvent_def
      split: list.splits option.splits)

lemma unexportSvc_frame:
  assumes "unexportSvc E r w svcExport = ((err, svcExport'), w1)"
  shows "(\<exists>evs. trace w1 = trace w @ evs \<and> (\<forall>ev \<in> set evs. \<not> isHubProjectionWrite ev))
    \<and> objectKey svcExport' = objectKey svcExport
    \<and> Conditions svcExport' = Conditions svcExport"
proof -
  obtain derr wd where
    d: "hubDeleteInternalSvcExport w (hubNS r, formatInternalSvcExportName svcExport) = (derr, wd)"
    by (cases "hubDeleteInternalSvcExport w (hubNS r, formatInternalSvcExportName svcExport)")
  note fd = hubDeleteInternalSvcExport_frame [OF d]
  show ?thesis
  proof (cases derr)
    case (Some e)
    with assms d have "svcExport' = svcExport" "w1 = wd"
      by (simp_all add: unexportSvc_def)
    with fd show ?thesis by simp
  next
    case None
    let ?kept = "svcExport\<lparr>Finalizers :=
        filter (\<lambda>finalizer. finalizer \<noteq> svcExportCleanupFinalizer E) (Finalizers svcExport)\<rparr>"
    obtain uerr wu where u: "memberUpdateSvcExport wd ?kept = (uerr, wu)"
      by (cases "memberUpdateSvcExport wd ?kept")
    note fu = memberUpdateSvcExport_frame [OF u]
    from assms d None u have "svcExport' = ?kept" "w1 = wu"
      by (simp_all add: unexportSvc_def removeSvcExportCleanupFinalizer_def)
    with fd fu show ?thesis by (simp add: objectKey_def)
  qed
qed

lemma filter_replace:
  "P c \<Longrightarrow> filter P (filter (\<lambda>x. \<not> P x) xs @ [c]) = [c]
     \<and> filter (\<lambda>x. \<not> P x) (filter (\<lambda>x. \<not> P x) xs @ [c]) = filter (\<lambda>x. \<not> P x) xs"
  by (induction xs) auto

lemma markNotFound_frame:
  assumes "markSvcExportAsInvalidSvcNotFound E w svcExport = ((err, svcExport'), w')"
  shows "svcExport' = svcExport\<lparr>Conditions :=
           filter (\<lambda>cond. Type cond \<noteq> ServiceExportValid E) (Conditions svcExport)
            @ [\<lparr>Type = ServiceExportValid E, Status = ConditionFalse,
                LastTransitionTime = clock w, Reason = ''ServiceNotFound'',
                Message = ''service '' @ Namespace svcExport @ ''/'' @ Name svcExport
                            @ '' is not found''\<rparr>]\<rparr>
    \<and> trace w' = trace w @ [MemberUpdateSvcExport svcExport' err]
    \<and> (err = None \<longrightarrow> memberSvcExports w' (objectKey svcExport) = Some svcExport')"
proof -
  let ?marked = "svcExport\<lparr>Conditions :=
           filter (\<lambda>cond. Type cond \<noteq> ServiceExportValid E) (Conditions svcExport)
            @ [\<lparr>Type = ServiceExportValid E, Status = ConditionFalse,
                LastTransitionTime = clock w, Reason = ''ServiceNotFound'',
                Message = ''service '' @ Namespace svcExport @ ''/'' @ Name svcExport
                            @ '' is not found''\<rparr>]\<rparr>"
  obtain uerr wu where u: "memberUpdateSvcExport w ?marked = (uerr, wu)"
    by (cases "memberUpdateSvcExport w ?marked")
  note fu = memberUpdateSvcExport_frame [OF u]
  from assms u have "svcExport' = ?marked" "w' = wu" "err = uerr"
    by (simp_all add: markSvcExportAsInvalidSvcNotFound_def)
  with fu show ?thesis by (simp add: objectKey_def)
qed

lemma markIneligible_frame:
  assumes "markSvcExportAsInvalidSvcIneligible E w svcExport = ((err, svcExport'), w')"
  shows "svcExport' = svcExport\<lparr>Conditions :=
           filter (\<lambda>cond. Type cond \<noteq> ServiceExportValid E) (Conditions svcExport)
            @ [\<lparr>Type = ServiceExportValid E, Status = ConditionFalse,
                LastTransitionTime = clock w, Reason = ''ServiceIneligible'',
                Message = ''service '' @ Namespace svcExport @ ''/'' @ Name svcExport
                            @ '' is not eligible for export''\<rparr>]\<rparr>
    \<and> trace w' = trace w @ [MemberUpdateSvcExport svcExport' err]
    \<and> (err = None \<longrightarrow> memberSvcExports w' (objectKey svcExport) = Some svcExport')"
proof -
  let ?marked = "svcExport\<lparr>Conditions :=
           filter (\<lambda>cond. Type cond \<noteq> ServiceExportValid E) (Conditions svcExport)
            @ [\<lparr>Type = ServiceExportValid E, Status = ConditionFalse,
                LastTransitionTime = clock w, Reason = ''ServiceIneligible'',
                Message = ''service '' @ Namespace svcExport @ ''/'' @ Name svcExport
                            @ '' is not eligible for export''\<rparr>]\<rparr>"
  obtain uerr wu where u: "memberUpdateSvcExport w ?marked = (uerr, wu)"
    by (cases "memberUpdateSvcExport w ?marked")
  note fu = memberUpdateSvcExport_frame [OF u]
  from assms u have "svcExport' = ?marked" "w' = wu" "err = uerr"
    by (simp_all add: markSvcExportAsInvalidSvcIneligible_def)
  with fu show ?thesis by (simp add: objectKey_def)
qed

lemma markNotFound_no_hub_write:
  "markSvcExportAsInvalidSvcNotFound E w s = (res, w1) \<Longrightarrow>
     \<exists>evs. trace w1 = trace w @ evs \<and> (\<forall>ev \<in> set evs. \<not> isHubProjectionWrite ev)"
  using markNotFound_frame [of E w s "fst res" "snd res" w1] by simp

lemma markIneligible_no_hub_write:
  "markSvcExportAsInvalidSvcIneligible E w s = (res, w1) \<Longrightarrow>
     \<exists>evs. trace w1 = trace w @ evs \<and> (\<forall>ev \<in> set evs. \<not> isHubProjectionWrite ev)"
  using markIneligible_frame [of E w s "fst res" "snd res" w1] by simp

lemma markNotFound_stored:
  assumes "markSvcExportAsInvalidSvcNotFound E w s = ((e, s'), w1)"
  shows "(\<exists>c. filter (\<lambda>cond. Type cond = ServiceExportValid E) (Conditions s') = [c]
            \<and> Status c = ConditionFalse \<and> Reason c = ''ServiceNotFound'')
         \<and> (e = None \<longrightarrow> memberSvcExports w1 (objectKey s) = Some s')"
  using markNotFound_frame [OF assms]
    filter_replace [of "\<lambda>cond. Type cond = ServiceExportValid E" _ "Conditions s"]
  by simp

lemma markIneligible_stored:
  assumes "markSvcExportAsInvalidSvcIneligible E w s = ((e, s'), w1)"
  shows "(\<exists>c. filter (\<lambda>cond. Type cond = ServiceExportValid E) (Conditions s') = [c]
            \<and> Status c = ConditionFalse \<and> Reason c = ''ServiceIneligible'')
         \<and> (e = None \<longrightarrow> memberSvcExports w1 (objectKey s) = Some s')"
  using markIneligible_frame [OF assms]
    filter_replace [of "\<lambda>cond. Type cond = ServiceExportValid E" _ "Conditions s"]
  by simp

lemma addCleanupFinalizer_frame:
  assumes "addCleanupFinalizer E w svcExport = ((err, svcExport'), w1)"
  shows "svcExport' = svcExport\<lparr>Finalizers := Finalizers svcExport @ [svcExportCleanupFinalizer E]\<rparr>
    \<and> trace w1 = trace w @ [MemberUpdateSvcExport svcExport' err]
    \<and> (err = None \<longrightarrow> memberSvcExports w1 (objectKey svcExport') = Some svcExport')"
proof -
  let ?added = "svcExport\<lparr>Finalizers := Finalizers svcExport @ [svcExportCleanupFinalizer E]\<rparr>"
  obtain uerr wu where u: "memberUpdateSvcExport w ?added = (uerr, wu)"
    by (cases "memberUpdateSvcExport w ?added")
  note fu = memberUpdateSvcExport_frame [OF u]
  from assms u have "svcExport' = ?added" "w1 = wu" "err = uerr"
    by (simp_all add: addCleanupFinalizer_def)
  with fu show ?thesis by simp
qed

text \<open>The two branches of \<^verbatim>\<open>Reconcile\<close> that mark the ServiceExport invalid have one
  shape: unexport when the finalizer is there, then mark. They issue no hub
  projection write, and when they return no error the marked object is stored.\<close>

lemma unexport_then_mark:
  assumes frame: "\<And>w s res w1. mark w s = (res, w1) \<Longrightarrow>
        \<exists>evs. trace w1 = trace w @ evs \<and> (\<forall>ev \<in> set evs. \<not> isHubProjectionWrite ev)"
    and run: "(if b then
            (case unexportSvc E r wa svcExport of
               ((Some err, _), wb) \<Rightarrow> (Some err, wb)
             | ((None, svcExport'), wb) \<Rightarrow>
                 (case mark wb svcExport' of ((err, _), wc) \<Rightarrow> (err, wc)))
          else (case mark wa svcExport of ((err, _), wc) \<Rightarrow> (err, wc))) = (err, w')"
  shows "\<exists>evs. trace w' = trace wa @ evs \<and> (\<forall>ev \<in> set evs. \<not> isHubProjectionWrite ev)"
proof (cases b)
  case False
  obtain res wc where m: "mark wa svcExport = (res, wc)" by (cases "mark wa svcExport")
  with run False have "w' = wc" by (simp split: prod.splits)
  with frame [OF m] show ?thesis by simp
next
  case True
  obtain uerr se' wb where u: "unexportSvc E r wa svcExport = ((uerr, se'), wb)"
    by (cases "unexportSvc E r wa svcExport") auto
  from unexportSvc_frame [OF u] obtain evs1 where
    e1: "trace wb = trace wa @ evs1" "\<forall>ev \<in> set evs1. \<not> isHubProjectionWrite ev" by blast
  show ?thesis
  proof (cases uerr)
    case (Some e)
    with run True u have "w' = wb" by simp
    with e1 show ?thesis by simp
  next
    case None
    obtain res wc where m: "mark wb se' = (res, wc)" by (cases "mark wb se'")
    with run True u None have "w' = wc" by (simp split: prod.splits)
    moreover from frame [OF m] obtain evs2 where
      "trace wc = trace wb @ evs2" "\<forall>ev \<in> set evs2. \<not> isHubProjectionWrite ev" by blast
    ultimately show ?thesis using e1 by auto
  qed
qed

lemma unexport_then_mark_stored:
  assumes frame: "\<And>w s e s' w1. mark w s = ((e, s'), w1) \<Longrightarrow>
        (\<exists>c. filter (\<lambda>cond. Type cond = V) (Conditions s') = [c]
            \<and> Status c = ConditionFalse \<and> Reason c = reason)
        \<and> (e = None \<longrightarrow> memberSvcExports w1 (objectKey s) = Some s')"
    and run: "(if b then
            (case unexportSvc E r wa svcExport of
               ((Some err, _), wb) \<Rightarrow> (Some err, wb)
             | ((None, svcExport'), wb) \<Rightarrow>
                 (case mark wb svcExport' of ((err, _), wc) \<Rightarrow> (err, wc)))
          else (case mark wa svcExport of ((err, _), wc) \<Rightarrow> (err, wc))) = (None, w')"
  shows "\<exists>s' c. memberSvcExports w' (objectKey svcExport) = Some s'
      \<and> filter (\<lambda>cond. Type cond = V) (Conditions s') = [c]
      \<and> Status c = ConditionFalse \<and> Reason c = reason"
proof (cases b)
  case False
  obtain e s' wc where m: "mark wa svcExport = ((e, s'), wc)"
    by (cases "mark wa svcExport") auto
  with run False have "w' = wc" "e = None" by simp_all
  with frame [OF m] show ?thesis by auto
next
  case True
  obtain uerr se' wb where u: "unexportSvc E r wa svcExport = ((uerr, se'), wb)"
    by (cases "unexportSvc E r wa svcExport") auto
  from unexportSvc_frame [OF u] have k: "objectKey se' = objectKey svcExport" by simp
  show ?thesis
  proof (cases uerr)
    case (Some e)
    with run True u show ?thesis by simp
  next
    case None
    obtain e s' wc where m: "mark wb se' = ((e, s'), wc)"
      by (cases "mark wb se'") auto
    with run True u None have "w' = wc" "e = None" by simp_all
    with frame [OF m] k show ?thesis by auto
  qed
qed

lemma export_tail:
  assumes "(case hubGetInternalSvcExport wa k of
              (Inl NotFound, wb) \<Rightarrow> hubCreateInternalSvcExport wb zeroInternalSvcExport
            | (Inl _, wb) \<Rightarrow> hubUpdateInternalSvcExport wb zeroInternalSvcExport
            | (Inr internalSvcExport, wb) \<Rightarrow> hubUpdateInternalSvcExport wb internalSvcExport)
           = (err, w')"
  shows "\<exists>ev. trace w' = trace wa @ [ev] \<and> isHubProjectionWrite ev
           \<and> memberSvcExports w' = memberSvcExports wa"
proof -
  obtain got wb where g: "hubGetInternalSvcExport wa k = (got, wb)"
    by (cases "hubGetInternalSvcExport wa k")
  note fg = hubGetInternalSvcExport_frame [OF g]
  show ?thesis
  proof (cases got)
    case (Inr i)
    with assms g have "hubUpdateInternalSvcExport wb i = (err, w')" by simp
    from hubUpdateInternalSvcExport_frame [OF this] fg show ?thesis by simp
  next
    case (Inl e)
    show ?thesis
    proof (cases "e = NotFound")
      case True
      with Inl assms g have "hubCreateInternalSvcExport wb zeroInternalSvcExport = (err, w')"
        by simp
      from hubCreateInternalSvcExport_frame [OF this] fg show ?thesis by simp
    next
      case False
      with Inl assms g have "hubUpdateInternalSvcExport wb zeroInternalSvcExport = (err, w')"
        by (cases e) simp_all
      from hubUpdateInternalSvcExport_frame [OF this] fg show ?thesis by simp
    qed
  qed
qed

lemma no_hub_write_contra:
  assumes "trace w' = trace w @ evs" "\<forall>ev \<in> set evs. \<not> isHubProjectionWrite ev"
    "ev \<in> set (eventsSince w w')" "isHubProjectionWrite ev"
  shows P
  using assms by (auto simp: eventsSince_def)

lemma CreateOrUpdate_frame:
  assumes "CreateOrUpdate w obj f = (err, w')"
  shows "\<exists>evs. trace w' = trace w @ evs \<and> (\<forall>ev \<in> set evs. isHubEvent ev)
           \<and> memberEndpointSlices w' = memberEndpointSlices w"
proof -
  obtain got w1 where g: "hubGetEndpointSliceExport w (objectKey obj) = (got, w1)"
    by (cases "hubGetEndpointSliceExport w (objectKey obj)")
  note fg = hubGetEndpointSliceExport_frame [OF g]
  show ?thesis
  proof (cases got)
    case (Inr existing)
    show ?thesis
    proof (cases "f existing = existing")
      case True
      with assms g Inr have "w' = w1" by (simp add: CreateOrUpdate_def)
      with fg show ?thesis by simp
    next
      case False
      with assms g Inr have "hubUpdateEndpointSliceExport w1 (f existing) = (err, w')"
        by (simp add: CreateOrUpdate_def)
      from hubUpdateEndpointSliceExport_frame [OF this] fg show ?thesis by simp
    qed
  next
    case (Inl e)
    show ?thesis
    proof (cases "e = NotFound")
      case True
      with assms g Inl have "hubCreateEndpointSliceExport w1 (f obj) = (err, w')"
        by (simp add: CreateOrUpdate_def)
      from hubCreateEndpointSliceExport_frame [OF this] fg show ?thesis by simp
    next
      case False
      with assms g Inl have "w' = w1" by (cases e) (simp_all add: CreateOrUpdate_def)
      with fg show ?thesis by simp
    qed
  qed
qed

lemma shouldSkipOrUnexportEndpointSlice_frame:
  assumes "shouldSkipOrUnexportEndpointSlice E w es = (res, w1)"
  shows "trace w1 = trace w \<and> memberEndpointSlices w1 = memberEndpointSlices w"
proof (cases "Labels es LabelServiceName")
  case None
  with assms have "w1 = w"
    by (simp add: shouldSkipOrUnexportEndpointSlice_def split: if_splits)
  then show ?thesis by simp
next
  case (Some svcName)
  obtain got wg where g: "memberGetSvcExport w (Namespace es, svcName) = (got, wg)"
    by (cases "memberGetSvcExport w (Namespace es, svcName)")
  have "w1 = w \<or> w1 = wg"
    using assms Some g
    by (auto simp: shouldSkipOrUnexportEndpointSlice_def Let_def
        split: if_splits sum.splits store_error.splits)
  with memberGetSvcExport_frame [OF g] show ?thesis by auto
qed

section \<open>The example worlds, run\<close>

lemma run_worldDeletingExport:
  "serviceexport_Reconcile exampleEnv exampleSvcExportReconciler worldDeletingExport storeKey =
     (None, worldDeletingExport\<lparr>trace :=
        [HubDeleteInternalSvcExport (''hub'', ''default-store'') (Some NotFound)]\<rparr>)"
  by (simp add: worldDeletingExport_def svcdefs fixtures quiet)

lemma run_worldFreshExport:
  "serviceexport_Reconcile exampleEnv exampleSvcExportReconciler worldFreshExport storeKey =
     (Some Invalid, worldFreshExport\<lparr>
        memberSvcExports := [storeKey \<mapsto> svcExportOf ''default'' ''store'' [''cleanup''] None []],
        trace := [MemberUpdateSvcExport (svcExportOf ''default'' ''store'' [''cleanup''] None []) None,
                  HubCreateInternalSvcExport zeroInternalSvcExport (Some Invalid)]\<rparr>)"
  by (simp add: worldFreshExport_def svcdefs fixtures quiet)

lemma run_worldStaleProjection:
  "serviceexport_Reconcile exampleEnv exampleSvcExportReconciler worldStaleProjection storeKey =
     (None, worldStaleProjection\<lparr>trace := [HubUpdateInternalSvcExport (internalSvcExportOf []) None]\<rparr>)"
  by (simp add: worldStaleProjection_def svcdefs fixtures quiet)

lemma run_worldNoService:
  "serviceexport_Reconcile exampleEnv exampleSvcExportReconciler worldNoService storeKey =
     (None, worldNoService\<lparr>
        memberSvcExports := [storeKey \<mapsto> svcExportOf ''default'' ''store'' [] None
          [\<lparr>Type = ''Valid'', Status = ConditionFalse, LastTransitionTime = 7,
            Reason = ''ServiceNotFound'', Message = ''service default/store is not found''\<rparr>]],
        trace := [MemberUpdateSvcExport (svcExportOf ''default'' ''store'' [] None
          [\<lparr>Type = ''Valid'', Status = ConditionFalse, LastTransitionTime = 7,
            Reason = ''ServiceNotFound'', Message = ''service default/store is not found''\<rparr>])
          None]\<rparr>)"
  by (simp add: worldNoService_def svcdefs fixtures quiet)

lemma run_worldIneligibleService:
  "serviceexport_Reconcile exampleEnv exampleSvcExportReconciler worldIneligibleService storeKey =
     (None, worldIneligibleService\<lparr>
        memberSvcExports := [storeKey \<mapsto> svcExportOf ''default'' ''store'' [] None
          [\<lparr>Type = ''Valid'', Status = ConditionFalse, LastTransitionTime = 7,
            Reason = ''ServiceIneligible'',
            Message = ''service default/store is not eligible for export''\<rparr>]],
        trace := [MemberUpdateSvcExport (svcExportOf ''default'' ''store'' [] None
          [\<lparr>Type = ''Valid'', Status = ConditionFalse, LastTransitionTime = 7,
            Reason = ''ServiceIneligible'',
            Message = ''service default/store is not eligible for export''\<rparr>])
          None]\<rparr>)"
  by (simp add: worldIneligibleService_def svcdefs fixtures quiet)

lemma run_mark_worldValidIntentNoService:
  "markSvcExportAsInvalidSvcNotFound exampleEnv worldValidIntentNoService
      (svcExportOf ''default'' ''store'' [] None [validCondition, noConflictCondition]) =
    ((None, svcExportOf ''default'' ''store'' [] None
        [noConflictCondition,
         \<lparr>Type = ''Valid'', Status = ConditionFalse, LastTransitionTime = 7,
          Reason = ''ServiceNotFound'', Message = ''service default/store is not found''\<rparr>]),
     worldValidIntentNoService\<lparr>memberSvcExports := [storeKey \<mapsto>
        svcExportOf ''default'' ''store'' [] None
        [noConflictCondition,
         \<lparr>Type = ''Valid'', Status = ConditionFalse, LastTransitionTime = 7,
          Reason = ''ServiceNotFound'', Message = ''service default/store is not found''\<rparr>]],
       trace := [MemberUpdateSvcExport (svcExportOf ''default'' ''store'' [] None
        [noConflictCondition,
         \<lparr>Type = ''Valid'', Status = ConditionFalse, LastTransitionTime = 7,
          Reason = ''ServiceNotFound'', Message = ''service default/store is not found''\<rparr>]) None]\<rparr>)"
  by (simp add: worldValidIntentNoService_def svcdefs fixtures quiet)

text \<open>The lookup of the governing ServiceExport and the decision in the slice worlds.\<close>

lemma lookup_sliceWorld:
  "Labels es LabelServiceName = Some ''store'' \<Longrightarrow> Namespace es = ''default'' \<Longrightarrow>
   memberGetSvcExport (sliceWorld es' conds []) (Namespace es, ''store'') =
     (Inr (svcExportOf ''default'' ''store'' [''cleanup''] None conds), sliceWorld es' conds [])"
  by (simp add: sliceWorld_def emptyWorld_def storeKey_def memberGetSvcExport_quiet)

lemma valid_example:
  "isValidWithNoConflict exampleEnv
     (svcExportOf ''default'' ''store'' [''cleanup''] None [validCondition, noConflictCondition])"
  by (simp add: isValidWithNoConflict_def FindStatusCondition_def fixtures)

lemma slice_facts:
  "Labels sliceLiveUnlabelled LabelServiceName = Some ''store''"
  "Labels sliceDeletedUnlabelled LabelServiceName = Some ''store''"
  "Labels sliceDeletedUnlabelledIPv6 LabelServiceName = Some ''store''"
  "Labels sliceLiveUnlabelled endpointSliceUniqueNameLabel = None"
  "Labels sliceDeletedUnlabelled endpointSliceUniqueNameLabel = None"
  "Labels sliceDeletedUnlabelledIPv6 endpointSliceUniqueNameLabel = None"
  "Namespace sliceLiveUnlabelled = ''default''"
  "Namespace sliceDeletedUnlabelled = ''default''"
  "Namespace sliceDeletedUnlabelledIPv6 = ''default''"
  "DeletionTimestamp sliceLiveUnlabelled = None"
  "DeletionTimestamp sliceDeletedUnlabelled = Some 3"
  "DeletionTimestamp sliceDeletedUnlabelledIPv6 = Some 3"
  "\<not> isEndpointSlicePermanentlyUnexportable exampleEnv sliceLiveUnlabelled"
  "\<not> isEndpointSlicePermanentlyUnexportable exampleEnv sliceDeletedUnlabelled"
  "isEndpointSlicePermanentlyUnexportable exampleEnv sliceDeletedUnlabelledIPv6"
  "objectKey sliceLiveUnlabelled = sliceKey"
  "objectKey sliceDeletedUnlabelled = sliceKey"
  by (simp_all add: sliceLiveUnlabelled_def sliceDeletedUnlabelled_def
      sliceDeletedUnlabelledIPv6_def sliceOf_def exampleEnv_def LabelServiceName_def
      endpointSliceUniqueNameLabel_def AddressTypeIPv4_def objectKey_def sliceKey_def)

section \<open>Unexport when the hub projection is already gone\<close>

lemma unexportSvc_NotFound:
  assumes "hubDeleteInternalSvcExport w (hubNS r, formatInternalSvcExportName svcExport)
             = (Some NotFound, w1)"
  shows "unexportSvc E r w svcExport = ((None, svcExport), w1)"
  using assms by (simp add: unexportSvc_def)

text \<open>
  Claim C1: when the unexport path runs (cleanup finalizer present, deletion
  scheduled) and the hub delete reports NotFound, the pass treats the absence as
  success and still removes the cleanup finalizer from the ServiceExport and
  persists it.

  \<^verbatim>\<open>unexportSvc\<close> returns \<^verbatim>\<open>client.IgnoreNotFound(err)\<close> for every error of the
  delete, so on NotFound it returns \<^verbatim>\<open>nil\<close> before
  \<^verbatim>\<open>removeSvcExportCleanupFinalizer\<close> is reached (\<open>unexportSvc_NotFound\<close>). In \<open>worldDeletingExport\<close> the pass
  returns no error, its only write call is the hub delete that answered NotFound,
  and the ServiceExport in the member store still carries the finalizer.
\<close>

theorem unexport_not_found_keeps_finalizer:
  "isSvcExportCleanupNeeded exampleEnv (svcExportOf ''default'' ''store'' [''cleanup''] (Some 5) [])
   \<and> memberSvcExports worldDeletingExport storeKey
        = Some (svcExportOf ''default'' ''store'' [''cleanup''] (Some 5) [])
   \<and> hubInternalSvcExports worldDeletingExport (''hub'', ''default-store'') = None
   \<and> faults worldDeletingExport = []
   \<and> fst (serviceexport_Reconcile exampleEnv exampleSvcExportReconciler worldDeletingExport storeKey)
        = None
   \<and> eventsSince worldDeletingExport
        (snd (serviceexport_Reconcile exampleEnv exampleSvcExportReconciler worldDeletingExport storeKey))
        = [HubDeleteInternalSvcExport (''hub'', ''default-store'') (Some NotFound)]
   \<and> memberSvcExports
        (snd (serviceexport_Reconcile exampleEnv exampleSvcExportReconciler worldDeletingExport storeKey))
        storeKey = Some (svcExportOf ''default'' ''store'' [''cleanup''] (Some 5) [])
   \<and> hasSvcExportCleanupFinalizer exampleEnv (svcExportOf ''default'' ''store'' [''cleanup''] (Some 5) [])"
  unfolding run_worldDeletingExport
  by (simp add: worldDeletingExport_def eventsSince_def emptyWorld_def
      isSvcExportCleanupNeeded_def hasSvcExportCleanupFinalizer_def svcExportOf_def exampleEnv_def)

section \<open>Validity of the governing ServiceExport\<close>

lemma FindStatusCondition_absent:
  "(\<forall>c \<in> set cs. Type c \<noteq> t) \<Longrightarrow> FindStatusCondition cs t = None"
  by (simp add: FindStatusCondition_def find_None_iff)

text \<open>
  Claim C2, as amended: for an EndpointSlice that passes the permanent check, has
  the service-name label and whose ServiceExport is found, the outcome is Continue
  exactly when the first condition of type Valid has status True, a condition of
  type Conflict is present and the first one has status False, and the slice is not
  both labelled with a unique name and marked for deletion. A ServiceExport with
  no Conflict condition at all is not valid: the slice is unexported when it has
  the unique-name label and skipped when it has none.
\<close>

theorem valid_needs_conflict_false:
  assumes "\<not> isEndpointSlicePermanentlyUnexportable E es"
    and "Labels es LabelServiceName = Some svcName"
    and "memberGetSvcExport w (Namespace es, svcName) = (Inr svcExport, w1)"
  shows "(fst (fst (shouldSkipOrUnexportEndpointSlice E w es)) = noSkipOrUnexportNeededOp
          \<longleftrightarrow> (\<exists>v c. FindStatusCondition (Conditions svcExport) (ServiceExportValid E) = Some v
                  \<and> Status v = ConditionTrue
                  \<and> FindStatusCondition (Conditions svcExport) (ServiceExportConflict E) = Some c
                  \<and> Status c = ConditionFalse)
              \<and> \<not> (Labels es endpointSliceUniqueNameLabel \<noteq> None \<and> DeletionTimestamp es \<noteq> None))
    \<and> ((\<forall>c \<in> set (Conditions svcExport). Type c \<noteq> ServiceExportConflict E)
          \<longrightarrow> fst (shouldSkipOrUnexportEndpointSlice E w es) =
              (if Labels es endpointSliceUniqueNameLabel \<noteq> None
               then shouldUnexportEndpointSliceOp else shouldSkipEndpointSliceOp, None))"
proof -
  have v: "isValidWithNoConflict E svcExport
      \<longleftrightarrow> (\<exists>v c. FindStatusCondition (Conditions svcExport) (ServiceExportValid E) = Some v
                  \<and> Status v = ConditionTrue
                  \<and> FindStatusCondition (Conditions svcExport) (ServiceExportConflict E) = Some c
                  \<and> Status c = ConditionFalse)"
    by (auto simp: isValidWithNoConflict_def Let_def split: option.splits)
  have n: "(\<forall>c \<in> set (Conditions svcExport). Type c \<noteq> ServiceExportConflict E)
      \<Longrightarrow> \<not> isValidWithNoConflict E svcExport"
    by (simp add: isValidWithNoConflict_def Let_def FindStatusCondition_absent)
  have d: "fst (shouldSkipOrUnexportEndpointSlice E w es) =
      (if \<not> isValidWithNoConflict E svcExport then
         (if Labels es endpointSliceUniqueNameLabel \<noteq> None
          then shouldUnexportEndpointSliceOp else shouldSkipEndpointSliceOp)
       else if Labels es endpointSliceUniqueNameLabel \<noteq> None \<and> DeletionTimestamp es \<noteq> None
         then shouldUnexportEndpointSliceOp
       else noSkipOrUnexportNeededOp, None)"
    using assms by (simp add: shouldSkipOrUnexportEndpointSlice_def)
  show ?thesis
    unfolding d using v n by auto
qed

theorem valid_needs_conflict_false_witness:
  "\<not> isEndpointSlicePermanentlyUnexportable exampleEnv sliceLiveUnlabelled
   \<and> Labels sliceLiveUnlabelled LabelServiceName = Some ''store''
   \<and> memberGetSvcExport (sliceWorld sliceLiveUnlabelled [validCondition, noConflictCondition] [])
        (Namespace sliceLiveUnlabelled, ''store'')
      = (Inr (svcExportOf ''default'' ''store'' [''cleanup''] None [validCondition, noConflictCondition]),
         sliceWorld sliceLiveUnlabelled [validCondition, noConflictCondition] [])
   \<and> fst (fst (shouldSkipOrUnexportEndpointSlice exampleEnv
        (sliceWorld sliceLiveUnlabelled [validCondition, noConflictCondition] []) sliceLiveUnlabelled))
      = noSkipOrUnexportNeededOp"
proof -
  note g = lookup_sliceWorld [OF slice_facts(1) slice_facts(7),
      of sliceLiveUnlabelled "[validCondition, noConflictCondition]"]
  note t = valid_needs_conflict_false [OF slice_facts(13) slice_facts(1) g]
  have b: "\<exists>v c. FindStatusCondition
        (Conditions (svcExportOf ''default'' ''store'' [''cleanup''] None
           [validCondition, noConflictCondition])) (ServiceExportValid exampleEnv) = Some v
      \<and> Status v = ConditionTrue
      \<and> FindStatusCondition
        (Conditions (svcExportOf ''default'' ''store'' [''cleanup''] None
           [validCondition, noConflictCondition])) (ServiceExportConflict exampleEnv) = Some c
      \<and> Status c = ConditionFalse"
    by (simp add: FindStatusCondition_def fixtures)
  have c: "\<not> (Labels sliceLiveUnlabelled endpointSliceUniqueNameLabel \<noteq> None
      \<and> DeletionTimestamp sliceLiveUnlabelled \<noteq> None)"
    by (simp add: slice_facts)
  from t b c have "fst (fst (shouldSkipOrUnexportEndpointSlice exampleEnv
        (sliceWorld sliceLiveUnlabelled [validCondition, noConflictCondition] []) sliceLiveUnlabelled))
      = noSkipOrUnexportNeededOp"
    by blast
  with g show ?thesis by (simp add: slice_facts)
qed

text \<open>The claim as stated fails: the ServiceExport below has the Valid condition with
  status True and no Conflict condition, the slice has the service-name label and
  is not marked for deletion, and the outcome is Skip.\<close>

theorem valid_without_conflict_counterexample:
  "\<not> isEndpointSlicePermanentlyUnexportable exampleEnv sliceLiveUnlabelled
   \<and> Labels sliceLiveUnlabelled LabelServiceName = Some ''store''
   \<and> DeletionTimestamp sliceLiveUnlabelled = None
   \<and> lookupGoverningIntent (sliceWorld sliceLiveUnlabelled [validCondition] []) sliceLiveUnlabelled
       = Inr (svcExportOf ''default'' ''store'' [''cleanup''] None [validCondition])
   \<and> FindStatusCondition [validCondition] (ServiceExportValid exampleEnv) = Some validCondition
   \<and> Status validCondition = ConditionTrue
   \<and> FindStatusCondition [validCondition] (ServiceExportConflict exampleEnv) = None
   \<and> fst (shouldSkipOrUnexportEndpointSlice exampleEnv
        (sliceWorld sliceLiveUnlabelled [validCondition] []) sliceLiveUnlabelled)
       = (shouldSkipEndpointSliceOp, None)"
proof -
  note g = lookup_sliceWorld [OF slice_facts(1) slice_facts(7),
      of sliceLiveUnlabelled "[validCondition]"]
  have nv: "\<not> isValidWithNoConflict exampleEnv
      (svcExportOf ''default'' ''store'' [''cleanup''] None [validCondition])"
    by (simp add: isValidWithNoConflict_def FindStatusCondition_def fixtures)
  have d: "fst (shouldSkipOrUnexportEndpointSlice exampleEnv
        (sliceWorld sliceLiveUnlabelled [validCondition] []) sliceLiveUnlabelled)
       = (shouldSkipEndpointSliceOp, None)"
    using g nv by (simp add: shouldSkipOrUnexportEndpointSlice_def slice_facts)
  have l: "lookupGoverningIntent (sliceWorld sliceLiveUnlabelled [validCondition] [])
        sliceLiveUnlabelled
       = Inr (svcExportOf ''default'' ''store'' [''cleanup''] None [validCondition])"
    using g by (simp add: lookupGoverningIntent_def slice_facts)
  have f: "FindStatusCondition [validCondition] (ServiceExportValid exampleEnv) = Some validCondition
      \<and> Status validCondition = ConditionTrue
      \<and> FindStatusCondition [validCondition] (ServiceExportConflict exampleEnv) = None"
    by (simp add: FindStatusCondition_def fixtures)
  show ?thesis using d l f by (simp add: slice_facts)
qed

section \<open>Marking the ServiceExport invalid\<close>

text \<open>
  Claim C3, as amended: in every pass in which the ServiceExport is read, cleanup is
  not needed, and the pass returns no error, the ServiceExport held by the member
  store afterwards carries exactly one condition of type Valid, with status False
  and reason "ServiceNotFound" when the Service was not found or is marked deleted,
  and with status False and reason "ServiceIneligible" when the Service exists, is
  not marked deleted and fails the eligibility predicate.
\<close>

theorem invalid_condition_reasons:
  assumes g1: "memberGetSvcExport w req = (Inr svcExport, w1)"
    and nc: "\<not> isSvcExportCleanupNeeded E svcExport"
    and g2: "memberGetSvc w1 req = (got, w2)"
    and run: "serviceexport_Reconcile E r w req = (None, w')"
  shows "(got = Inl NotFound \<or> (\<exists>svc. got = Inr svc \<and> isSvcDeleted svc)
          \<longrightarrow> (\<exists>svcExport' c. memberSvcExports w' (objectKey svcExport) = Some svcExport'
                \<and> filter (\<lambda>cond. Type cond = ServiceExportValid E) (Conditions svcExport') = [c]
                \<and> Status c = ConditionFalse \<and> Reason c = ''ServiceNotFound''))
    \<and> ((\<exists>svc. got = Inr svc \<and> \<not> isSvcDeleted svc \<and> \<not> isSvcEligibleForExport E svc)
          \<longrightarrow> (\<exists>svcExport' c. memberSvcExports w' (objectKey svcExport) = Some svcExport'
                \<and> filter (\<lambda>cond. Type cond = ServiceExportValid E) (Conditions svcExport') = [c]
                \<and> Status c = ConditionFalse \<and> Reason c = ''ServiceIneligible''))"
proof (intro conjI impI)
  assume "got = Inl NotFound \<or> (\<exists>svc. got = Inr svc \<and> isSvcDeleted svc)"
  then have "got = Inl NotFound \<or> (case got of Inr svc \<Rightarrow> isSvcDeleted svc | Inl _ \<Rightarrow> False)"
    by auto
  with g1 nc g2 run
  have "(if hasSvcExportCleanupFinalizer E svcExport then
           (case unexportSvc E r w2 svcExport of
              ((Some err, _), w3) \<Rightarrow> (Some err, w3)
            | ((None, svcExport'), w3) \<Rightarrow>
                (case markSvcExportAsInvalidSvcNotFound E w3 svcExport' of
                   ((err, _), w4) \<Rightarrow> (err, w4)))
         else (case markSvcExportAsInvalidSvcNotFound E w2 svcExport of
                 ((err, _), w4) \<Rightarrow> (err, w4))) = (None, w')"
    by (simp add: serviceexport_Reconcile_def)
  then show "\<exists>svcExport' c. memberSvcExports w' (objectKey svcExport) = Some svcExport'
      \<and> filter (\<lambda>cond. Type cond = ServiceExportValid E) (Conditions svcExport') = [c]
      \<and> Status c = ConditionFalse \<and> Reason c = ''ServiceNotFound''"
    by (rule unexport_then_mark_stored [rotated]) (erule markNotFound_stored)
next
  assume "\<exists>svc. got = Inr svc \<and> \<not> isSvcDeleted svc \<and> \<not> isSvcEligibleForExport E svc"
  then obtain svc where "got = Inr svc" "\<not> isSvcDeleted svc" "\<not> isSvcEligibleForExport E svc"
    by blast
  with g1 nc g2 run
  have "(if hasSvcExportCleanupFinalizer E svcExport then
           (case unexportSvc E r w2 svcExport of
              ((Some err, _), w3) \<Rightarrow> (Some err, w3)
            | ((None, svcExport'), w3) \<Rightarrow>
                (case markSvcExportAsInvalidSvcIneligible E w3 svcExport' of
                   ((err, _), w4) \<Rightarrow> (err, w4)))
         else (case markSvcExportAsInvalidSvcIneligible E w2 svcExport of
                 ((err, _), w4) \<Rightarrow> (err, w4))) = (None, w')"
    by (simp add: serviceexport_Reconcile_def)
  then show "\<exists>svcExport' c. memberSvcExports w' (objectKey svcExport) = Some svcExport'
      \<and> filter (\<lambda>cond. Type cond = ServiceExportValid E) (Conditions svcExport') = [c]
      \<and> Status c = ConditionFalse \<and> Reason c = ''ServiceIneligible''"
    by (rule unexport_then_mark_stored [rotated]) (erule markIneligible_stored)
qed

theorem invalid_condition_reasons_witness:
  "memberGetSvcExport worldNoService storeKey
      = (Inr (svcExportOf ''default'' ''store'' [] None []), worldNoService)
   \<and> \<not> isSvcExportCleanupNeeded exampleEnv (svcExportOf ''default'' ''store'' [] None [])
   \<and> memberGetSvc worldNoService storeKey = (Inl NotFound, worldNoService)
   \<and> fst (serviceexport_Reconcile exampleEnv exampleSvcExportReconciler worldNoService storeKey)
      = None
   \<and> (\<exists>svcExport' c.
        memberSvcExports
          (snd (serviceexport_Reconcile exampleEnv exampleSvcExportReconciler worldNoService storeKey))
          storeKey = Some svcExport'
        \<and> filter (\<lambda>cond. Type cond = ''Valid'') (Conditions svcExport') = [c]
        \<and> Status c = ConditionFalse \<and> Reason c = ''ServiceNotFound'')"
proof -
  have g1: "memberGetSvcExport worldNoService storeKey
      = (Inr (svcExportOf ''default'' ''store'' [] None []), worldNoService)"
    by (simp add: worldNoService_def emptyWorld_def memberGetSvcExport_quiet)
  have nc: "\<not> isSvcExportCleanupNeeded exampleEnv (svcExportOf ''default'' ''store'' [] None [])"
    by (simp add: isSvcExportCleanupNeeded_def svcExportOf_def)
  have g2: "memberGetSvc worldNoService storeKey = (Inl NotFound, worldNoService)"
    by (simp add: worldNoService_def emptyWorld_def memberGetSvc_quiet)
  note run = run_worldNoService
  have k: "objectKey (svcExportOf ''default'' ''store'' [] None []) = storeKey"
    by (simp add: objectKey_def svcExportOf_def storeKey_def)
  have v: "ServiceExportValid exampleEnv = ''Valid''"
    by (simp add: exampleEnv_def)
  from invalid_condition_reasons [OF g1 nc g2 run]
  show ?thesis
    unfolding k v using g1 nc g2 by (simp add: run)
qed

text \<open>The claim as stated names the reasons "SourceNotFound" and "SourceIneligible";
  the strings the controller writes are "ServiceNotFound" and "ServiceIneligible".
  In \<open>worldNoService\<close> the Service is absent, in \<open>worldIneligibleService\<close> it fails the
  eligibility predicate; the passes succeed and no stored condition has the claimed
  reason.\<close>

theorem invalid_condition_reasons_counterexample:
  "memberSvcs worldNoService storeKey = None
   \<and> fst (serviceexport_Reconcile exampleEnv exampleSvcExportReconciler worldNoService storeKey)
      = None
   \<and> memberSvcExports
        (snd (serviceexport_Reconcile exampleEnv exampleSvcExportReconciler worldNoService storeKey))
        storeKey
      = Some (svcExportOf ''default'' ''store'' [] None
          [\<lparr>Type = ''Valid'', Status = ConditionFalse, LastTransitionTime = 7,
            Reason = ''ServiceNotFound'', Message = ''service default/store is not found''\<rparr>])
   \<and> ''ServiceNotFound'' \<noteq> ''SourceNotFound''
   \<and> memberSvcs worldIneligibleService storeKey = Some (svcOf [] None)
   \<and> \<not> isSvcEligibleForExport exampleEnv (svcOf [] None)
   \<and> fst (serviceexport_Reconcile exampleEnv exampleSvcExportReconciler worldIneligibleService storeKey)
      = None
   \<and> memberSvcExports
        (snd (serviceexport_Reconcile exampleEnv exampleSvcExportReconciler worldIneligibleService
           storeKey)) storeKey
      = Some (svcExportOf ''default'' ''store'' [] None
          [\<lparr>Type = ''Valid'', Status = ConditionFalse, LastTransitionTime = 7,
            Reason = ''ServiceIneligible'',
            Message = ''service default/store is not eligible for export''\<rparr>])
   \<and> ''ServiceIneligible'' \<noteq> ''SourceIneligible''"
  unfolding run_worldNoService run_worldIneligibleService
  by (simp add: worldNoService_def worldIneligibleService_def emptyWorld_def exampleEnv_def
      svcOf_def)

section \<open>The name of the hub projection\<close>

lemma dash_split:
  assumes "a @ CHR ''-'' # x = b @ CHR ''-'' # y"
    and "CHR ''-'' \<notin> set a \<and> CHR ''-'' \<notin> set b \<or> length a = length b"
  shows "a = b \<and> x = y"
proof -
  from assms(2) show ?thesis
  proof
    assume nd: "CHR ''-'' \<notin> set a \<and> CHR ''-'' \<notin> set b"
    have "takeWhile (\<lambda>c. c \<noteq> CHR ''-'') (a @ CHR ''-'' # x) = a"
      using nd by (auto simp: takeWhile_append2 takeWhile_tail)
    moreover have "takeWhile (\<lambda>c. c \<noteq> CHR ''-'') (b @ CHR ''-'' # y) = b"
      using nd by (auto simp: takeWhile_append2 takeWhile_tail)
    ultimately have "a = b" using assms(1) by simp
    with assms(1) show ?thesis by simp
  next
    assume "length a = length b"
    with assms(1) show ?thesis by simp
  qed
qed

text \<open>
  Claim C4, as amended: the name of the hub projection of a ServiceExport is a
  function of its namespace and name alone (the namespace, a dash, the name). Two
  ServiceExports with different identities get different names whenever neither
  namespace contains a dash, or the two namespaces have the same length (in
  particular within one namespace).
\<close>

theorem export_name_injective:
  "(Namespace a = Namespace b \<and> Name a = Name b
      \<longrightarrow> formatInternalSvcExportName a = formatInternalSvcExportName b)
   \<and> (CHR ''-'' \<notin> set (Namespace a) \<and> CHR ''-'' \<notin> set (Namespace b)
        \<or> length (Namespace a) = length (Namespace b)
      \<longrightarrow> formatInternalSvcExportName a = formatInternalSvcExportName b
      \<longrightarrow> Namespace a = Namespace b \<and> Name a = Name b)"
  using dash_split [of "Namespace a" "Name a" "Namespace b" "Name b"]
  by (auto simp: formatInternalSvcExportName_def)

theorem export_name_injective_witness:
  "CHR ''-'' \<notin> set (Namespace (svcExportOf ''default'' ''store'' [] None []))
   \<and> CHR ''-'' \<notin> set (Namespace (svcExportOf ''prod'' ''store'' [] None []))
   \<and> formatInternalSvcExportName (svcExportOf ''default'' ''store'' [] None []) = ''default-store''
   \<and> formatInternalSvcExportName (svcExportOf ''default'' ''store'' [] None [validCondition])
      = ''default-store''
   \<and> formatInternalSvcExportName (svcExportOf ''default'' ''store'' [] None [])
      \<noteq> formatInternalSvcExportName (svcExportOf ''prod'' ''store'' [] None [])"
  using export_name_injective [of "svcExportOf ''default'' ''store'' [] None []"
      "svcExportOf ''prod'' ''store'' [] None []"]
    export_name_injective [of "svcExportOf ''default'' ''store'' [] None []"
      "svcExportOf ''default'' ''store'' [] None [validCondition]"]
  by (simp add: svcExportOf_def formatInternalSvcExportName_def)

text \<open>The claim as stated fails: the ServiceExports \<open>a-b/c\<close> and \<open>a/b-c\<close> have
  different identities and the same name \<open>a-b-c\<close>.\<close>

theorem export_name_collision:
  "objectKey (svcExportOf ''a-b'' ''c'' [] None []) \<noteq> objectKey (svcExportOf ''a'' ''b-c'' [] None [])
   \<and> formatInternalSvcExportName (svcExportOf ''a-b'' ''c'' [] None []) = ''a-b-c''
   \<and> formatInternalSvcExportName (svcExportOf ''a'' ''b-c'' [] None []) = ''a-b-c''"
  by (simp add: formatInternalSvcExportName_def svcExportOf_def objectKey_def)

section \<open>The decision table\<close>

lemma isValidWithNoConflict_reading:
  "isValidWithNoConflict E svcExport \<longleftrightarrow> validAndConflictFalse E svcExport"
  by (auto simp: isValidWithNoConflict_def validAndConflictFalse_def FindStatusCondition_def
      Let_def split: option.splits)

lemma decision_by_table:
  assumes "\<forall>err. lookupGoverningIntent w es = Inl err \<longrightarrow> err = NotFound"
  shows "fst (shouldSkipOrUnexportEndpointSlice E w es) =
      ((case specDecisionTable (isEndpointSlicePermanentlyUnexportable E es)
               (Labels es LabelServiceName \<noteq> None)
               (Labels es endpointSliceUniqueNameLabel \<noteq> None)
               (governingIntentValidity (validAndConflictFalse E) (lookupGoverningIntent w es))
               (DeletionTimestamp es \<noteq> None) of
          Some op \<Rightarrow> op
        | None \<Rightarrow> noSkipOrUnexportNeededOp), None)"
proof (cases "Labels es LabelServiceName")
  case None
  then show ?thesis
    by (simp add: shouldSkipOrUnexportEndpointSlice_def specDecisionTable_def
        lookupGoverningIntent_def governingIntentValidity_def)
next
  case (Some svcName)
  obtain got w1 where g: "memberGetSvcExport w (Namespace es, svcName) = (got, w1)"
    by (cases "memberGetSvcExport w (Namespace es, svcName)")
  from assms Some g have ne: "\<And>err. got = Inl err \<Longrightarrow> err = NotFound"
    by (simp add: lookupGoverningIntent_def)
  show ?thesis
  proof (cases got)
    case (Inl err)
    with ne have "got = Inl NotFound" by simp
    with Some g show ?thesis
      by (simp add: shouldSkipOrUnexportEndpointSlice_def specDecisionTable_def
          lookupGoverningIntent_def governingIntentValidity_def)
  next
    case (Inr svcExport)
    with Some g show ?thesis
      by (simp add: shouldSkipOrUnexportEndpointSlice_def specDecisionTable_def
          lookupGoverningIntent_def governingIntentValidity_def isValidWithNoConflict_reading)
  qed
qed

lemma table_gap:
  "specDecisionTable p s u v d = None \<longleftrightarrow> \<not> p \<and> s \<and> \<not> u \<and> v = IntentValid \<and> d"
  by (cases v) (auto simp: specDecisionTable_def)

text \<open>
  Claim C5, as amended: whenever the lookup of the governing ServiceExport answers
  an object or NotFound, the decision returns no error, and on every combination of
  the five inputs (service-name label, unique-name label, validity of the governing
  ServiceExport, deletion timestamp, permanent ineligibility) that the precedence
  table of the spec's section 4.2 has a row for, it yields the outcome of the first
  matching row, the ServiceExport counting as valid when its Valid condition has
  status True and its Conflict condition is present with status False. The table has
  a row for every combination but one: service-name label, no unique-name label,
  valid ServiceExport, deletion timestamp set, not permanently ineligible. Nothing
  is stated about the outcome there.
\<close>

theorem decision_table_rows:
  assumes "\<forall>err. lookupGoverningIntent w es = Inl err \<longrightarrow> err = NotFound"
  shows "snd (fst (shouldSkipOrUnexportEndpointSlice E w es)) = None
    \<and> (\<forall>op. specDecisionTable (isEndpointSlicePermanentlyUnexportable E es)
               (Labels es LabelServiceName \<noteq> None)
               (Labels es endpointSliceUniqueNameLabel \<noteq> None)
               (governingIntentValidity (validAndConflictFalse E) (lookupGoverningIntent w es))
               (DeletionTimestamp es \<noteq> None) = Some op
            \<longrightarrow> fst (fst (shouldSkipOrUnexportEndpointSlice E w es)) = op)
    \<and> (specDecisionTable (isEndpointSlicePermanentlyUnexportable E es)
               (Labels es LabelServiceName \<noteq> None)
               (Labels es endpointSliceUniqueNameLabel \<noteq> None)
               (governingIntentValidity (validAndConflictFalse E) (lookupGoverningIntent w es))
               (DeletionTimestamp es \<noteq> None) = None
        \<longleftrightarrow> \<not> isEndpointSlicePermanentlyUnexportable E es
            \<and> Labels es LabelServiceName \<noteq> None
            \<and> Labels es endpointSliceUniqueNameLabel = None
            \<and> governingIntentValidity (validAndConflictFalse E) (lookupGoverningIntent w es)
                = IntentValid
            \<and> DeletionTimestamp es \<noteq> None)"
  using decision_by_table [OF assms, of E]
  by (simp add: table_gap)

theorem decision_table_rows_witness:
  "lookupGoverningIntent (sliceWorld sliceLiveUnlabelled [validCondition, noConflictCondition] [])
      sliceLiveUnlabelled
     = Inr (svcExportOf ''default'' ''store'' [''cleanup''] None [validCondition, noConflictCondition])
   \<and> validAndConflictFalse exampleEnv
       (svcExportOf ''default'' ''store'' [''cleanup''] None [validCondition, noConflictCondition])
   \<and> specDecisionTable False True False IntentValid False = Some noSkipOrUnexportNeededOp
   \<and> fst (shouldSkipOrUnexportEndpointSlice exampleEnv
        (sliceWorld sliceLiveUnlabelled [validCondition, noConflictCondition] []) sliceLiveUnlabelled)
     = (noSkipOrUnexportNeededOp, None)"
proof -
  note g = lookup_sliceWorld [OF slice_facts(1) slice_facts(7),
      of sliceLiveUnlabelled "[validCondition, noConflictCondition]"]
  have l: "lookupGoverningIntent
      (sliceWorld sliceLiveUnlabelled [validCondition, noConflictCondition] []) sliceLiveUnlabelled
     = Inr (svcExportOf ''default'' ''store'' [''cleanup''] None [validCondition, noConflictCondition])"
    using g by (simp add: lookupGoverningIntent_def slice_facts)
  have h: "\<forall>err. lookupGoverningIntent
      (sliceWorld sliceLiveUnlabelled [validCondition, noConflictCondition] []) sliceLiveUnlabelled
      = Inl err \<longrightarrow> err = NotFound"
    by (simp add: l)
  have v: "validAndConflictFalse exampleEnv
       (svcExportOf ''default'' ''store'' [''cleanup''] None [validCondition, noConflictCondition])"
    using valid_example by (simp add: isValidWithNoConflict_reading)
  have t: "specDecisionTable False True False IntentValid False = Some noSkipOrUnexportNeededOp"
    by (simp add: specDecisionTable_def)
  from decision_table_rows [OF h, of exampleEnv]
  have "snd (fst (shouldSkipOrUnexportEndpointSlice exampleEnv
        (sliceWorld sliceLiveUnlabelled [validCondition, noConflictCondition] []) sliceLiveUnlabelled))
      = None
    \<and> fst (fst (shouldSkipOrUnexportEndpointSlice exampleEnv
        (sliceWorld sliceLiveUnlabelled [validCondition, noConflictCondition] []) sliceLiveUnlabelled))
      = noSkipOrUnexportNeededOp"
    by (simp add: l v t slice_facts governingIntentValidity_def)
  then have "fst (shouldSkipOrUnexportEndpointSlice exampleEnv
        (sliceWorld sliceLiveUnlabelled [validCondition, noConflictCondition] []) sliceLiveUnlabelled)
     = (noSkipOrUnexportNeededOp, None)"
    by (simp add: prod_eq_iff)
  with l v t show ?thesis by simp
qed

text \<open>The claim as stated fails twice. Under the spec's reading of "valid" the
  ServiceExport of the first world (Valid with status True, no Conflict condition)
  is valid and the table's last row gives Continue for the live slice, where the
  decision is Skip. For the slice of the second world, marked for deletion and never
  exported, under a ServiceExport valid in both readings, the table has no row; the
  decision there is Continue.\<close>

theorem decision_table_counterexample:
  "\<not> isEndpointSlicePermanentlyUnexportable exampleEnv sliceLiveUnlabelled
   \<and> Labels sliceLiveUnlabelled LabelServiceName \<noteq> None
   \<and> Labels sliceLiveUnlabelled endpointSliceUniqueNameLabel = None
   \<and> DeletionTimestamp sliceLiveUnlabelled = None
   \<and> lookupGoverningIntent (sliceWorld sliceLiveUnlabelled [validCondition] []) sliceLiveUnlabelled
       = Inr (svcExportOf ''default'' ''store'' [''cleanup''] None [validCondition])
   \<and> specIntentValid exampleEnv (svcExportOf ''default'' ''store'' [''cleanup''] None [validCondition])
   \<and> specDecisionTable False True False
        (governingIntentValidity (specIntentValid exampleEnv)
           (lookupGoverningIntent (sliceWorld sliceLiveUnlabelled [validCondition] [])
              sliceLiveUnlabelled)) False
       = Some noSkipOrUnexportNeededOp
   \<and> fst (shouldSkipOrUnexportEndpointSlice exampleEnv
        (sliceWorld sliceLiveUnlabelled [validCondition] []) sliceLiveUnlabelled)
       = (shouldSkipEndpointSliceOp, None)
   \<and> \<not> isEndpointSlicePermanentlyUnexportable exampleEnv sliceDeletedUnlabelled
   \<and> Labels sliceDeletedUnlabelled LabelServiceName \<noteq> None
   \<and> Labels sliceDeletedUnlabelled endpointSliceUniqueNameLabel = None
   \<and> DeletionTimestamp sliceDeletedUnlabelled \<noteq> None
   \<and> lookupGoverningIntent
        (sliceWorld sliceDeletedUnlabelled [validCondition, noConflictCondition] [])
        sliceDeletedUnlabelled
       = Inr (svcExportOf ''default'' ''store'' [''cleanup''] None [validCondition, noConflictCondition])
   \<and> specIntentValid exampleEnv
        (svcExportOf ''default'' ''store'' [''cleanup''] None [validCondition, noConflictCondition])
   \<and> validAndConflictFalse exampleEnv
        (svcExportOf ''default'' ''store'' [''cleanup''] None [validCondition, noConflictCondition])
   \<and> specDecisionTable False True False IntentValid True = None
   \<and> fst (shouldSkipOrUnexportEndpointSlice exampleEnv
        (sliceWorld sliceDeletedUnlabelled [validCondition, noConflictCondition] [])
        sliceDeletedUnlabelled)
       = (noSkipOrUnexportNeededOp, None)"
proof -
  note g1 = lookup_sliceWorld [OF slice_facts(1) slice_facts(7),
      of sliceLiveUnlabelled "[validCondition]"]
  note g2 = lookup_sliceWorld [OF slice_facts(2) slice_facts(8),
      of sliceDeletedUnlabelled "[validCondition, noConflictCondition]"]
  have l1: "lookupGoverningIntent (sliceWorld sliceLiveUnlabelled [validCondition] [])
        sliceLiveUnlabelled
       = Inr (svcExportOf ''default'' ''store'' [''cleanup''] None [validCondition])"
    using g1 by (simp add: lookupGoverningIntent_def slice_facts)
  have l2: "lookupGoverningIntent
        (sliceWorld sliceDeletedUnlabelled [validCondition, noConflictCondition] [])
        sliceDeletedUnlabelled
       = Inr (svcExportOf ''default'' ''store'' [''cleanup''] None [validCondition, noConflictCondition])"
    using g2 by (simp add: lookupGoverningIntent_def slice_facts)
  have s1: "specIntentValid exampleEnv
      (svcExportOf ''default'' ''store'' [''cleanup''] None [validCondition])"
    by (simp add: specIntentValid_def fixtures)
  have s2: "specIntentValid exampleEnv
      (svcExportOf ''default'' ''store'' [''cleanup''] None [validCondition, noConflictCondition])"
    by (simp add: specIntentValid_def fixtures)
  have v2: "validAndConflictFalse exampleEnv
      (svcExportOf ''default'' ''store'' [''cleanup''] None [validCondition, noConflictCondition])"
    using valid_example by (simp add: isValidWithNoConflict_reading)
  have t1: "specDecisionTable False True False
        (governingIntentValidity (specIntentValid exampleEnv)
           (lookupGoverningIntent (sliceWorld sliceLiveUnlabelled [validCondition] [])
              sliceLiveUnlabelled)) False
       = Some noSkipOrUnexportNeededOp"
    by (simp add: l1 s1 governingIntentValidity_def specDecisionTable_def)
  have t2: "specDecisionTable False True False IntentValid True = None"
    by (simp add: specDecisionTable_def)
  have nv: "\<not> isValidWithNoConflict exampleEnv
      (svcExportOf ''default'' ''store'' [''cleanup''] None [validCondition])"
    by (simp add: isValidWithNoConflict_def FindStatusCondition_def fixtures)
  have d1: "fst (shouldSkipOrUnexportEndpointSlice exampleEnv
        (sliceWorld sliceLiveUnlabelled [validCondition] []) sliceLiveUnlabelled)
       = (shouldSkipEndpointSliceOp, None)"
    using g1 nv by (simp add: shouldSkipOrUnexportEndpointSlice_def slice_facts)
  have d2: "fst (shouldSkipOrUnexportEndpointSlice exampleEnv
        (sliceWorld sliceDeletedUnlabelled [validCondition, noConflictCondition] [])
        sliceDeletedUnlabelled)
       = (noSkipOrUnexportNeededOp, None)"
    using g2 valid_example by (simp add: shouldSkipOrUnexportEndpointSlice_def slice_facts)
  show ?thesis
    using l1 l2 s1 s2 v2 t1 t2 d1 d2 by (simp add: slice_facts)
qed

section \<open>The cleanup finalizer comes before the hub write\<close>

text \<open>
  Claim C6: in every pass of the ServiceExport controller that reaches the hub
  create-or-update, the cleanup finalizer has been added to the ServiceExport and
  persisted to the member store before any hub write is issued; no pass writes a
  hub projection for a ServiceExport that does not carry the finalizer.

  Whatever the stores hold and whichever calls fail: if a pass issues a create or
  an update of an InternalServiceExport, then either that is its only write call
  and the ServiceExport it read from the member store already carried the
  finalizer, or the write is preceded by exactly one call, a successful member
  update of the ServiceExport with the finalizer appended; in both cases the member
  store holds the ServiceExport with the finalizer when the pass ends.
\<close>

theorem finalizer_before_hub_write:
  assumes run: "serviceexport_Reconcile E r w req = (err, w')"
    and ev: "ev \<in> set (eventsSince w w')" and hw: "isHubProjectionWrite ev"
  shows "\<exists>svcExport. hasSvcExportCleanupFinalizer E svcExport \<and>
      (eventsSince w w' = [ev] \<and> memberSvcExports w req = Some svcExport
          \<and> memberSvcExports w' req = Some svcExport
       \<or> eventsSince w w' = [MemberUpdateSvcExport svcExport None, ev]
          \<and> (\<exists>old. memberSvcExports w req = Some old \<and> \<not> hasSvcExportCleanupFinalizer E old
                \<and> svcExport = old\<lparr>Finalizers := Finalizers old @ [svcExportCleanupFinalizer E]\<rparr>)
          \<and> memberSvcExports w' (objectKey svcExport) = Some svcExport)"
proof -
  obtain got0 w1 where g1: "memberGetSvcExport w req = (got0, w1)"
    by (cases "memberGetSvcExport w req")
  note f1 = memberGetSvcExport_frame [OF g1]
  show ?thesis
  proof (cases got0)
    case (Inl e)
    with g1 run have "w' = w1" by (simp add: serviceexport_Reconcile_def)
    with f1 ev show ?thesis by (simp add: eventsSince_def)
  next
    case (Inr se)
    with f1 have stored: "memberSvcExports w req = Some se" by simp
    show ?thesis
    proof (cases "isSvcExportCleanupNeeded E se")
      case True
      obtain res wu where u: "unexportSvc E r w1 se = (res, wu)"
        by (cases "unexportSvc E r w1 se")
      with g1 Inr True run have "w' = wu"
        by (simp add: serviceexport_Reconcile_def split: prod.splits)
      with unexportSvc_frame [of E r w1 se "fst res" "snd res" wu] u f1
      obtain evs where "trace w' = trace w @ evs" "\<forall>ev \<in> set evs. \<not> isHubProjectionWrite ev"
        by auto
      then show ?thesis using ev hw by (rule no_hub_write_contra)
    next
      case nc: False
      obtain got wg where g2: "memberGetSvc w1 req = (got, wg)"
        by (cases "memberGetSvc w1 req")
      note f2 = memberGetSvc_frame [OF g2]
      show ?thesis
      proof (cases "got = Inl NotFound \<or> (case got of Inr svc \<Rightarrow> isSvcDeleted svc | Inl _ \<Rightarrow> False)")
        case True
        with g1 Inr nc g2 run
        have "(if hasSvcExportCleanupFinalizer E se then
                (case unexportSvc E r wg se of
                   ((Some err, _), w3) \<Rightarrow> (Some err, w3)
                 | ((None, svcExport'), w3) \<Rightarrow>
                     (case markSvcExportAsInvalidSvcNotFound E w3 svcExport' of
                        ((err, _), w4) \<Rightarrow> (err, w4)))
              else (case markSvcExportAsInvalidSvcNotFound E wg se of
                      ((err, _), w4) \<Rightarrow> (err, w4))) = (err, w')"
          by (simp add: serviceexport_Reconcile_def)
        then have "\<exists>evs. trace w' = trace wg @ evs \<and> (\<forall>ev \<in> set evs. \<not> isHubProjectionWrite ev)"
          by (rule unexport_then_mark [rotated]) (erule markNotFound_no_hub_write)
        then obtain evs where "trace w' = trace wg @ evs"
          "\<forall>ev \<in> set evs. \<not> isHubProjectionWrite ev" by blast
        with f1 f2 have "trace w' = trace w @ evs" "\<forall>ev \<in> set evs. \<not> isHubProjectionWrite ev"
          by simp_all
        then show ?thesis using ev hw by (rule no_hub_write_contra)
      next
        case nm: False
        show ?thesis
        proof (cases got)
          case (Inl e)
          with g1 Inr nc g2 nm run have "w' = wg"
            by (simp add: serviceexport_Reconcile_def)
          with f1 f2 ev show ?thesis by (simp add: eventsSince_def)
        next
          case svc: (Inr svc)
          show ?thesis
          proof (cases "isSvcEligibleForExport E svc")
            case False
            with g1 Inr nc g2 nm svc run
            have "(if hasSvcExportCleanupFinalizer E se then
                (case unexportSvc E r wg se of
                   ((Some err, _), w3) \<Rightarrow> (Some err, w3)
                 | ((None, svcExport'), w3) \<Rightarrow>
                     (case markSvcExportAsInvalidSvcIneligible E w3 svcExport' of
                        ((err, _), w4) \<Rightarrow> (err, w4)))
              else (case markSvcExportAsInvalidSvcIneligible E wg se of
                      ((err, _), w4) \<Rightarrow> (err, w4))) = (err, w')"
              by (simp add: serviceexport_Reconcile_def)
            then have "\<exists>evs. trace w' = trace wg @ evs
                \<and> (\<forall>ev \<in> set evs. \<not> isHubProjectionWrite ev)"
              by (rule unexport_then_mark [rotated]) (erule markIneligible_no_hub_write)
            then obtain evs where "trace w' = trace wg @ evs"
              "\<forall>ev \<in> set evs. \<not> isHubProjectionWrite ev" by blast
            with f1 f2 have "trace w' = trace w @ evs"
              "\<forall>ev \<in> set evs. \<not> isHubProjectionWrite ev" by simp_all
            then show ?thesis using ev hw by (rule no_hub_write_contra)
          next
            case el: True
            show ?thesis
            proof (cases "hasSvcExportCleanupFinalizer E se")
              case hf: True
              with g1 Inr nc g2 nm svc el run
              have "(case hubGetInternalSvcExport wg (hubNS r, formatInternalSvcExportName se) of
                      (Inl NotFound, w4) \<Rightarrow> hubCreateInternalSvcExport w4 zeroInternalSvcExport
                    | (Inl _, w4) \<Rightarrow> hubUpdateInternalSvcExport w4 zeroInternalSvcExport
                    | (Inr internalSvcExport, w4) \<Rightarrow>
                        hubUpdateInternalSvcExport w4 internalSvcExport) = (err, w')"
                by (simp add: serviceexport_Reconcile_def)
              from export_tail [OF this] obtain ev' where
                t: "trace w' = trace wg @ [ev']" "memberSvcExports w' = memberSvcExports wg"
                by blast
              with f1 f2 ev have "eventsSince w w' = [ev]" by (simp add: eventsSince_def)
              with t f1 f2 stored hf show ?thesis by auto
            next
              case nf: False
              obtain aerr se' wa where a: "addCleanupFinalizer E wg se = ((aerr, se'), wa)"
                by (cases "addCleanupFinalizer E wg se") auto
              note fa = addCleanupFinalizer_frame [OF a]
              show ?thesis
              proof (cases aerr)
                case (Some e)
                with g1 Inr nc g2 nm svc el nf a run
                have "w' = wa" by (simp add: serviceexport_Reconcile_def)
                with fa f1 f2 ev hw show ?thesis by (simp add: eventsSince_def)
              next
                case None
                with g1 Inr nc g2 nm svc el nf a run
                have "(case hubGetInternalSvcExport wa (hubNS r, formatInternalSvcExportName se') of
                      (Inl NotFound, w4) \<Rightarrow> hubCreateInternalSvcExport w4 zeroInternalSvcExport
                    | (Inl _, w4) \<Rightarrow> hubUpdateInternalSvcExport w4 zeroInternalSvcExport
                    | (Inr internalSvcExport, w4) \<Rightarrow>
                        hubUpdateInternalSvcExport w4 internalSvcExport) = (err, w')"
                  by (simp add: serviceexport_Reconcile_def)
                from export_tail [OF this] obtain ev' where
                  t: "trace w' = trace wa @ [ev']" "memberSvcExports w' = memberSvcExports wa"
                  by blast
                with f1 f2 fa None ev hw
                have "eventsSince w w' = [MemberUpdateSvcExport se' None, ev]"
                  by (auto simp: eventsSince_def)
                moreover have "hasSvcExportCleanupFinalizer E se'"
                  using fa by (simp add: hasSvcExportCleanupFinalizer_def)
                ultimately show ?thesis using t fa None stored nf by auto
              qed
            qed
          qed
        qed
      qed
    qed
  qed
qed

theorem finalizer_before_hub_write_witness:
  "HubCreateInternalSvcExport zeroInternalSvcExport (Some Invalid)
      \<in> set (eventsSince worldFreshExport
            (snd (serviceexport_Reconcile exampleEnv exampleSvcExportReconciler worldFreshExport storeKey)))
   \<and> isHubProjectionWrite (HubCreateInternalSvcExport zeroInternalSvcExport (Some Invalid))
   \<and> eventsSince worldFreshExport
        (snd (serviceexport_Reconcile exampleEnv exampleSvcExportReconciler worldFreshExport storeKey))
      = [MemberUpdateSvcExport (svcExportOf ''default'' ''store'' [''cleanup''] None []) None,
         HubCreateInternalSvcExport zeroInternalSvcExport (Some Invalid)]
   \<and> hasSvcExportCleanupFinalizer exampleEnv (svcExportOf ''default'' ''store'' [''cleanup''] None [])
   \<and> memberSvcExports
        (snd (serviceexport_Reconcile exampleEnv exampleSvcExportReconciler worldFreshExport storeKey))
        storeKey = Some (svcExportOf ''default'' ''store'' [''cleanup''] None [])"
proof -
  note h = run_worldFreshExport
  have ev: "HubCreateInternalSvcExport zeroInternalSvcExport (Some Invalid)
      \<in> set (eventsSince worldFreshExport
            (snd (serviceexport_Reconcile exampleEnv exampleSvcExportReconciler worldFreshExport storeKey)))"
    unfolding h by (simp add: eventsSince_def worldFreshExport_def emptyWorld_def)
  from finalizer_before_hub_write [OF h ev [unfolded h snd_conv]] show ?thesis
    unfolding h
    by (simp add: eventsSince_def worldFreshExport_def emptyWorld_def
        hasSvcExportCleanupFinalizer_def svcExportOf_def exampleEnv_def storeKey_def)
qed

section \<open>One Valid condition\<close>

text \<open>
  Claim C7: after the ServiceExport controller sets the Valid condition, the
  condition set contains exactly one condition of type Valid, the newly set one,
  and every condition of another type is kept unchanged; a new Valid condition
  replaces the prior one.

  Both functions that set the condition leave exactly one condition of type Valid
  (status False, stamped with the current time, with their reason), keep the
  conditions of every other type in their order, hand that object to the member
  update as their only write call, and on success the member store holds it.
\<close>

theorem valid_condition_replaced:
  assumes "markSvcExportAsInvalidSvcNotFound E w svcExport = ((err, svcExport'), w')
         \<or> markSvcExportAsInvalidSvcIneligible E w svcExport = ((err, svcExport'), w')"
  shows "(\<exists>c. filter (\<lambda>cond. Type cond = ServiceExportValid E) (Conditions svcExport') = [c]
            \<and> Status c = ConditionFalse \<and> LastTransitionTime c = clock w
            \<and> (Reason c = ''ServiceNotFound'' \<or> Reason c = ''ServiceIneligible''))
    \<and> filter (\<lambda>cond. Type cond \<noteq> ServiceExportValid E) (Conditions svcExport')
        = filter (\<lambda>cond. Type cond \<noteq> ServiceExportValid E) (Conditions svcExport)
    \<and> eventsSince w w' = [MemberUpdateSvcExport svcExport' err]
    \<and> (err = None \<longrightarrow> memberSvcExports w' (objectKey svcExport) = Some svcExport')"
  using assms
proof
  assume "markSvcExportAsInvalidSvcNotFound E w svcExport = ((err, svcExport'), w')"
  from markNotFound_frame [OF this]
  show ?thesis
    using filter_replace [of "\<lambda>cond. Type cond = ServiceExportValid E" _ "Conditions svcExport"]
    by (simp add: eventsSince_def)
next
  assume "markSvcExportAsInvalidSvcIneligible E w svcExport = ((err, svcExport'), w')"
  from markIneligible_frame [OF this]
  show ?thesis
    using filter_replace [of "\<lambda>cond. Type cond = ServiceExportValid E" _ "Conditions svcExport"]
    by (simp add: eventsSince_def)
qed

theorem valid_condition_replaced_witness:
  "Conditions (snd (fst (markSvcExportAsInvalidSvcNotFound exampleEnv worldValidIntentNoService
      (svcExportOf ''default'' ''store'' [] None [validCondition, noConflictCondition]))))
    = [noConflictCondition,
         \<lparr>Type = ''Valid'', Status = ConditionFalse, LastTransitionTime = 7,
          Reason = ''ServiceNotFound'', Message = ''service default/store is not found''\<rparr>]
   \<and> filter (\<lambda>cond. Type cond = ''Valid'')
       (Conditions (snd (fst (markSvcExportAsInvalidSvcNotFound exampleEnv worldValidIntentNoService
      (svcExportOf ''default'' ''store'' [] None [validCondition, noConflictCondition])))))
    = [\<lparr>Type = ''Valid'', Status = ConditionFalse, LastTransitionTime = 7,
          Reason = ''ServiceNotFound'', Message = ''service default/store is not found''\<rparr>]
   \<and> fst (fst (markSvcExportAsInvalidSvcNotFound exampleEnv worldValidIntentNoService
      (svcExportOf ''default'' ''store'' [] None [validCondition, noConflictCondition]))) = None"
proof -
  note h = run_mark_worldValidIntentNoService
  from valid_condition_replaced [OF disjI1, OF h] show ?thesis
    unfolding h by (simp add: svcExportOf_def noConflictCondition_def)
qed

section \<open>The unique-name label comes before the hub write\<close>

text \<open>
  Claim C8: in every pass of the EndpointSlice controller that reaches the Continue
  outcome with no unique-name label present, the controller assigns a unique name,
  writes the label to the member store, and that update completes successfully
  before the first hub write; if the label update fails, the pass returns the error
  without any hub write.

  Whatever the stores hold and whichever calls fail: the first write call of such a
  pass is the member update of the slice with the label set to the assigned name.
  If it fails, it is the only write call and the pass returns its error. If it
  succeeds, every later write call is a hub call and the member store holds the
  labelled slice when the pass ends.
\<close>

theorem label_before_hub_write:
  assumes get: "memberGetEndpointSlice w req = (Inr endpointSlice, w1)"
    and op: "shouldSkipOrUnexportEndpointSlice E w1 endpointSlice
               = ((noSkipOrUnexportNeededOp, None), w2)"
    and nolabel: "Labels endpointSlice endpointSliceUniqueNameLabel = None"
    and run: "endpointslice_Reconcile E r w req = (err, w')"
  shows "\<exists>updateErr rest.
      eventsSince w w' =
        MemberUpdateEndpointSlice
          (endpointSlice\<lparr>Labels := (Labels endpointSlice)(endpointSliceUniqueNameLabel \<mapsto>
              formatFleetUniqueName E (memberClusterID r) endpointSlice)\<rparr>) updateErr # rest
      \<and> (updateErr \<noteq> None \<longrightarrow> rest = [] \<and> err = updateErr)
      \<and> (updateErr = None \<longrightarrow> (\<forall>ev \<in> set rest. isHubEvent ev)
            \<and> memberEndpointSlices w' (objectKey endpointSlice) =
                Some (endpointSlice\<lparr>Labels := (Labels endpointSlice)(endpointSliceUniqueNameLabel \<mapsto>
                   formatFleetUniqueName E (memberClusterID r) endpointSlice)\<rparr>))"
proof -
  let ?name = "formatFleetUniqueName E (memberClusterID r) endpointSlice"
  let ?updated = "endpointSlice\<lparr>Labels :=
      (Labels endpointSlice)(endpointSliceUniqueNameLabel \<mapsto> ?name)\<rparr>"
  note f1 = memberGetEndpointSlice_frame [OF get]
  note f2 = shouldSkipOrUnexportEndpointSlice_frame [OF op]
  obtain uerr w3 where u: "memberUpdateEndpointSlice w2 ?updated = (uerr, w3)"
    by (cases "memberUpdateEndpointSlice w2 ?updated")
  note fu = memberUpdateEndpointSlice_frame [OF u]
  show ?thesis
  proof (cases uerr)
    case (Some e)
    with get op nolabel u run have "w' = w3" "err = Some e"
      by (simp_all add: endpointslice_Reconcile_def assignUniqueNameAsLabel_def)
    with f1 f2 fu Some have "eventsSince w w' = [MemberUpdateEndpointSlice ?updated (Some e)]"
      by (simp add: eventsSince_def)
    with \<open>err = Some e\<close> show ?thesis by simp
  next
    case None
    from get op nolabel u None run obtain obj f where c: "CreateOrUpdate w3 obj f = (err, w')"
      by (simp add: endpointslice_Reconcile_def assignUniqueNameAsLabel_def Let_def)
    from CreateOrUpdate_frame [OF c] obtain evs where
      e: "trace w' = trace w3 @ evs" "\<forall>ev \<in> set evs. isHubEvent ev"
         "memberEndpointSlices w' = memberEndpointSlices w3" by blast
    with f1 f2 fu None have "eventsSince w w' = MemberUpdateEndpointSlice ?updated None # evs"
      by (simp add: eventsSince_def)
    moreover have "memberEndpointSlices w' (objectKey endpointSlice) = Some ?updated"
      using e fu None by (simp add: objectKey_def)
    ultimately show ?thesis using e by simp
  qed
qed

lemma run_slice_update_conflict:
  "endpointslice_Reconcile exampleEnv exampleReconciler
      (sliceWorld sliceLiveUnlabelled [validCondition, noConflictCondition]
         [None, None, Some Conflict]) sliceKey
    = (Some Conflict,
       (sliceWorld sliceLiveUnlabelled [validCondition, noConflictCondition] [])\<lparr>trace :=
          [MemberUpdateEndpointSlice
             (sliceLiveUnlabelled\<lparr>Labels := (Labels sliceLiveUnlabelled)(endpointSliceUniqueNameLabel \<mapsto>
                 ''m1-default-store-abc'')\<rparr>) (Some Conflict)]\<rparr>)"
  by (simp add: sliceWorld_def sliceLiveUnlabelled_def slicedefs fixtures
      memberGetEndpointSlice_def memberGetSvcExport_def memberUpdateEndpointSlice_def
      nextFault_def logEvent_def)

theorem label_before_hub_write_witness:
  "memberGetEndpointSlice
      (sliceWorld sliceLiveUnlabelled [validCondition, noConflictCondition] [None, None, Some Conflict])
      sliceKey
     = (Inr sliceLiveUnlabelled,
        sliceWorld sliceLiveUnlabelled [validCondition, noConflictCondition] [None, Some Conflict])
   \<and> shouldSkipOrUnexportEndpointSlice exampleEnv
        (sliceWorld sliceLiveUnlabelled [validCondition, noConflictCondition] [None, Some Conflict])
        sliceLiveUnlabelled
     = ((noSkipOrUnexportNeededOp, None),
        sliceWorld sliceLiveUnlabelled [validCondition, noConflictCondition] [Some Conflict])
   \<and> Labels sliceLiveUnlabelled endpointSliceUniqueNameLabel = None
   \<and> fst (endpointslice_Reconcile exampleEnv exampleReconciler
        (sliceWorld sliceLiveUnlabelled [validCondition, noConflictCondition]
           [None, None, Some Conflict]) sliceKey) = Some Conflict
   \<and> eventsSince
        (sliceWorld sliceLiveUnlabelled [validCondition, noConflictCondition]
           [None, None, Some Conflict])
        (snd (endpointslice_Reconcile exampleEnv exampleReconciler
           (sliceWorld sliceLiveUnlabelled [validCondition, noConflictCondition]
              [None, None, Some Conflict]) sliceKey))
     = [MemberUpdateEndpointSlice
          (sliceLiveUnlabelled\<lparr>Labels := (Labels sliceLiveUnlabelled)(endpointSliceUniqueNameLabel \<mapsto>
              ''m1-default-store-abc'')\<rparr>) (Some Conflict)]"
proof -
  have get: "memberGetEndpointSlice
      (sliceWorld sliceLiveUnlabelled [validCondition, noConflictCondition] [None, None, Some Conflict])
      sliceKey
     = (Inr sliceLiveUnlabelled,
        sliceWorld sliceLiveUnlabelled [validCondition, noConflictCondition] [None, Some Conflict])"
    by (simp add: sliceWorld_def emptyWorld_def memberGetEndpointSlice_def nextFault_def)
  have op: "shouldSkipOrUnexportEndpointSlice exampleEnv
        (sliceWorld sliceLiveUnlabelled [validCondition, noConflictCondition] [None, Some Conflict])
        sliceLiveUnlabelled
     = ((noSkipOrUnexportNeededOp, None),
        sliceWorld sliceLiveUnlabelled [validCondition, noConflictCondition] [Some Conflict])"
    by (simp add: sliceWorld_def sliceLiveUnlabelled_def slicedefs fixtures
        memberGetSvcExport_def nextFault_def)
  note run = run_slice_update_conflict
  have e: "eventsSince
        (sliceWorld sliceLiveUnlabelled [validCondition, noConflictCondition]
           [None, None, Some Conflict])
        (snd (endpointslice_Reconcile exampleEnv exampleReconciler
           (sliceWorld sliceLiveUnlabelled [validCondition, noConflictCondition]
              [None, None, Some Conflict]) sliceKey))
     = [MemberUpdateEndpointSlice
          (sliceLiveUnlabelled\<lparr>Labels := (Labels sliceLiveUnlabelled)(endpointSliceUniqueNameLabel \<mapsto>
              ''m1-default-store-abc'')\<rparr>) (Some Conflict)]"
    unfolding run by (simp add: eventsSince_def sliceWorld_def emptyWorld_def)
  have r: "fst (endpointslice_Reconcile exampleEnv exampleReconciler
        (sliceWorld sliceLiveUnlabelled [validCondition, noConflictCondition]
           [None, None, Some Conflict]) sliceKey) = Some Conflict"
    by (simp add: run)
  from label_before_hub_write [OF get op slice_facts(4) run]
  show ?thesis
    using get op e r slice_facts(4) by simp
qed

section \<open>A second pass leaves the hub projection as the first left it\<close>




text \<open>The second pass changes nothing because the object a pass writes is the one it
  read from the hub, not one built from the Service:
  \<^verbatim>\<open>updateInternalSvcExport(&svc, &svcExport)\<close> is handed the ServiceExport, and the
  InternalServiceExport goes to \<^verbatim>\<open>Create\<close> or \<^verbatim>\<open>Update\<close> as the \<^verbatim>\<open>Get\<close> left it. In
  \<open>worldStaleProjection\<close> the Service has a port and the projection has none, before
  and after the pass; in \<open>worldFreshExport\<close>, where the hub holds no projection, the
  pass sends the zero value to \<^verbatim>\<open>Create\<close>, which the store refuses, and returns the
  error.\<close>

lemma projection_written_as_read:
  "memberSvcs worldStaleProjection storeKey = Some (svcOf [httpPort] None)
   \<and> isSvcEligibleForExport exampleEnv (svcOf [httpPort] None)
   \<and> hubInternalSvcExports worldStaleProjection (''hub'', ''default-store'')
        = Some (internalSvcExportOf [])
   \<and> ExportedPorts (internalSvcExportOf []) = []
   \<and> serviceexport_Reconcile exampleEnv exampleSvcExportReconciler worldStaleProjection storeKey
        = (None, worldStaleProjection\<lparr>trace :=
             [HubUpdateInternalSvcExport (internalSvcExportOf []) None]\<rparr>)
   \<and> memberSvcs worldFreshExport storeKey = Some (svcOf [httpPort] None)
   \<and> hubInternalSvcExports worldFreshExport = Map.empty
   \<and> fst (serviceexport_Reconcile exampleEnv exampleSvcExportReconciler worldFreshExport storeKey)
        = Some Invalid
   \<and> eventsSince worldFreshExport
        (snd (serviceexport_Reconcile exampleEnv exampleSvcExportReconciler worldFreshExport storeKey))
        = [MemberUpdateSvcExport (svcExportOf ''default'' ''store'' [''cleanup''] None []) None,
           HubCreateInternalSvcExport zeroInternalSvcExport (Some Invalid)]
   \<and> hubInternalSvcExports
        (snd (serviceexport_Reconcile exampleEnv exampleSvcExportReconciler worldFreshExport storeKey))
        = Map.empty"
  unfolding run_worldFreshExport run_worldStaleProjection
  by (simp add: worldFreshExport_def worldStaleProjection_def eventsSince_def emptyWorld_def
      exampleEnv_def svcOf_def httpPort_def storeKey_def internalSvcExportOf_def)

section \<open>A slice marked for deletion that was never exported\<close>

text \<open>
  Claim C10, as amended: for every EndpointSlice that passes the permanent
  exportability check, has the service-name label, has no unique-name label, and
  whose governing ServiceExport is valid with no conflict, the decision is Continue
  also when the deletion timestamp is set: the deletion timestamp leads to Unexport
  only beside the unique-name label. When no store call fails and the hub holds
  nothing under the assigned name, the pass on such a slice writes the label to the
  member store and then creates the EndpointSliceExport under that name.
\<close>

theorem unlabelled_deleted_slice_continues:
  assumes np: "\<not> isEndpointSlicePermanentlyUnexportable E es"
    and sl: "Labels es LabelServiceName = Some svcName"
    and nl: "Labels es endpointSliceUniqueNameLabel = None"
    and g: "memberGetSvcExport w (Namespace es, svcName) = (Inr svcExport, w1)"
    and v: "isValidWithNoConflict E svcExport"
  shows "shouldSkipOrUnexportEndpointSlice E w es = ((noSkipOrUnexportNeededOp, None), w1)
    \<and> (faults w = [] \<and> memberEndpointSlices w (objectKey es) = Some es
        \<and> hubEndpointSliceExports w
            (hubNamespace r, formatFleetUniqueName E (memberClusterID r) es) = None
       \<longrightarrow> fst (endpointslice_Reconcile E r w (objectKey es)) = None
         \<and> memberEndpointSlices (snd (endpointslice_Reconcile E r w (objectKey es))) (objectKey es)
             = Some (es\<lparr>Labels := (Labels es)(endpointSliceUniqueNameLabel \<mapsto>
                  formatFleetUniqueName E (memberClusterID r) es)\<rparr>)
         \<and> (\<exists>export.
              eventsSince w (snd (endpointslice_Reconcile E r w (objectKey es)))
                = [MemberUpdateEndpointSlice
                     (es\<lparr>Labels := (Labels es)(endpointSliceUniqueNameLabel \<mapsto>
                        formatFleetUniqueName E (memberClusterID r) es)\<rparr>) None,
                   HubCreateEndpointSliceExport export None]
              \<and> hubEndpointSliceExports (snd (endpointslice_Reconcile E r w (objectKey es)))
                  (hubNamespace r, formatFleetUniqueName E (memberClusterID r) es) = Some export
              \<and> objectKey export = (hubNamespace r, formatFleetUniqueName E (memberClusterID r) es)
              \<and> SpecEndpoints (Spec export) = extractEndpointsFromEndpointSlice E es
              \<and> SpecPorts (Spec export) = Ports es
              \<and> RefClusterID (EndpointSliceReference (Spec export)) = memberClusterID r
              \<and> RefNamespace (EndpointSliceReference (Spec export)) = Namespace es
              \<and> RefName (EndpointSliceReference (Spec export)) = Name es))"
proof (intro conjI impI)
  show d: "shouldSkipOrUnexportEndpointSlice E w es = ((noSkipOrUnexportNeededOp, None), w1)"
    using assms by (simp add: shouldSkipOrUnexportEndpointSlice_def)
  assume q: "faults w = [] \<and> memberEndpointSlices w (objectKey es) = Some es
      \<and> hubEndpointSliceExports w
          (hubNamespace r, formatFleetUniqueName E (memberClusterID r) es) = None"
  then have fw: "faults w = []" and st: "memberEndpointSlices w (Namespace es, Name es) = Some es"
    and hb: "hubEndpointSliceExports w
          (hubNamespace r, formatFleetUniqueName E (memberClusterID r) es) = None"
    by (simp_all add: objectKey_def)
  from g fw have w1: "w1 = w" by (simp add: memberGetSvcExport_quiet split: option.splits)
  let ?name = "formatFleetUniqueName E (memberClusterID r) es"
  let ?labelled = "es\<lparr>Labels := (Labels es)(endpointSliceUniqueNameLabel \<mapsto> ?name)\<rparr>"
  let ?wl = "w\<lparr>memberEndpointSlices := (memberEndpointSlices w)((Namespace es, Name es) \<mapsto> ?labelled),
               trace := trace w @ [MemberUpdateEndpointSlice ?labelled None]\<rparr>"
  have a: "assignUniqueNameAsLabel E r w es = ((?name, None), ?wl)"
    using fw st
    by (simp add: assignUniqueNameAsLabel_def memberUpdateEndpointSlice_quiet objectKey_def Let_def)
  have fl: "faults ?wl = []" using fw by simp
  have hl: "hubEndpointSliceExports ?wl (hubNamespace r, ?name) = None" using hb by simp
  have c: "\<And>obj f. objectKey obj = (hubNamespace r, ?name) \<Longrightarrow> objectKey (f obj) = objectKey obj
      \<Longrightarrow> CreateOrUpdate ?wl obj f =
        (None, ?wl\<lparr>hubEndpointSliceExports :=
                   (hubEndpointSliceExports ?wl)((hubNamespace r, ?name) \<mapsto> f obj),
                 trace := trace ?wl @ [HubCreateEndpointSliceExport (f obj) None]\<rparr>)"
    using fl hl
    by (simp add: CreateOrUpdate_def hubGetEndpointSliceExport_quiet
        hubCreateEndpointSliceExport_quiet del: fun_upd_apply)
  let ?export = "\<lparr>Namespace = hubNamespace r, Name = ?name,
      Labels = Map.empty, Finalizers = [], DeletionTimestamp = None,
      ResourceVersion = [], Generation = 0, UID = [],
      Spec = \<lparr>SpecAddressType = AddressTypeIPv4,
               SpecEndpoints = extractEndpointsFromEndpointSlice E es,
               SpecPorts = Ports es,
               EndpointSliceReference =
                 \<lparr>RefClusterID = memberClusterID r, RefAPIVersion = APIVersion es,
                  RefKind = Kind es, RefNamespace = Namespace es, RefName = Name es,
                  RefResourceVersion = ResourceVersion es, RefGeneration = Generation es,
                  RefUID = UID es\<rparr>\<rparr>\<rparr>"
  have r: "endpointslice_Reconcile E r w (objectKey es) =
      (None, ?wl\<lparr>hubEndpointSliceExports :=
                   (hubEndpointSliceExports ?wl)((hubNamespace r, ?name) \<mapsto> ?export),
                 trace := trace ?wl @ [HubCreateEndpointSliceExport ?export None]\<rparr>)"
    using fw st d [unfolded w1] nl a
    by (simp add: endpointslice_Reconcile_def memberGetEndpointSlice_quiet objectKey_def
        Let_def c del: fun_upd_apply)
  have x: "objectKey ?export = (hubNamespace r, ?name)"
      "SpecEndpoints (Spec ?export) = extractEndpointsFromEndpointSlice E es"
      "SpecPorts (Spec ?export) = Ports es"
      "RefClusterID (EndpointSliceReference (Spec ?export)) = memberClusterID r"
      "RefNamespace (EndpointSliceReference (Spec ?export)) = Namespace es"
      "RefName (EndpointSliceReference (Spec ?export)) = Name es"
    by (simp_all add: objectKey_def)
  show "fst (endpointslice_Reconcile E r w (objectKey es)) = None"
    by (simp add: r)
  show "memberEndpointSlices (snd (endpointslice_Reconcile E r w (objectKey es))) (objectKey es)
      = Some ?labelled"
    unfolding r by (simp add: objectKey_def)
  show "\<exists>export.
      eventsSince w (snd (endpointslice_Reconcile E r w (objectKey es)))
        = [MemberUpdateEndpointSlice ?labelled None, HubCreateEndpointSliceExport export None]
      \<and> hubEndpointSliceExports (snd (endpointslice_Reconcile E r w (objectKey es)))
          (hubNamespace r, ?name) = Some export
      \<and> objectKey export = (hubNamespace r, ?name)
      \<and> SpecEndpoints (Spec export) = extractEndpointsFromEndpointSlice E es
      \<and> SpecPorts (Spec export) = Ports es
      \<and> RefClusterID (EndpointSliceReference (Spec export)) = memberClusterID r
      \<and> RefNamespace (EndpointSliceReference (Spec export)) = Namespace es
      \<and> RefName (EndpointSliceReference (Spec export)) = Name es"
    unfolding r using x by (intro exI [of _ ?export]) (simp add: eventsSince_def)
qed

theorem unlabelled_deleted_slice_continues_witness:
  "\<not> isEndpointSlicePermanentlyUnexportable exampleEnv sliceDeletedUnlabelled
   \<and> Labels sliceDeletedUnlabelled LabelServiceName = Some ''store''
   \<and> Labels sliceDeletedUnlabelled endpointSliceUniqueNameLabel = None
   \<and> DeletionTimestamp sliceDeletedUnlabelled = Some 3
   \<and> isValidWithNoConflict exampleEnv
        (svcExportOf ''default'' ''store'' [''cleanup''] None [validCondition, noConflictCondition])
   \<and> shouldSkipOrUnexportEndpointSlice exampleEnv
        (sliceWorld sliceDeletedUnlabelled [validCondition, noConflictCondition] [])
        sliceDeletedUnlabelled
      = ((noSkipOrUnexportNeededOp, None),
         sliceWorld sliceDeletedUnlabelled [validCondition, noConflictCondition] [])
   \<and> fst (endpointslice_Reconcile exampleEnv exampleReconciler
        (sliceWorld sliceDeletedUnlabelled [validCondition, noConflictCondition] []) sliceKey) = None
   \<and> memberEndpointSlices
        (snd (endpointslice_Reconcile exampleEnv exampleReconciler
           (sliceWorld sliceDeletedUnlabelled [validCondition, noConflictCondition] []) sliceKey))
        sliceKey
      = Some (sliceDeletedUnlabelled\<lparr>Labels :=
          (Labels sliceDeletedUnlabelled)(endpointSliceUniqueNameLabel \<mapsto> ''m1-default-store-abc'')\<rparr>)
   \<and> hubEndpointSliceExports
        (snd (endpointslice_Reconcile exampleEnv exampleReconciler
           (sliceWorld sliceDeletedUnlabelled [validCondition, noConflictCondition] []) sliceKey))
        (''hub'', ''m1-default-store-abc'') \<noteq> None"
proof -
  note g = lookup_sliceWorld [OF slice_facts(2) slice_facts(8),
      of sliceDeletedUnlabelled "[validCondition, noConflictCondition]"]
  note t = unlabelled_deleted_slice_continues [OF slice_facts(14) slice_facts(2) slice_facts(5) g
      valid_example, of exampleReconciler]
  have n: "formatFleetUniqueName exampleEnv (memberClusterID exampleReconciler)
      sliceDeletedUnlabelled = ''m1-default-store-abc''"
    by (simp add: exampleEnv_def exampleReconciler_def sliceDeletedUnlabelled_def sliceOf_def)
  have h: "hubNamespace exampleReconciler = ''hub''"
    by (simp add: exampleReconciler_def)
  have q: "faults (sliceWorld sliceDeletedUnlabelled [validCondition, noConflictCondition] []) = []
      \<and> memberEndpointSlices (sliceWorld sliceDeletedUnlabelled [validCondition, noConflictCondition] [])
          (objectKey sliceDeletedUnlabelled) = Some sliceDeletedUnlabelled
      \<and> hubEndpointSliceExports
          (sliceWorld sliceDeletedUnlabelled [validCondition, noConflictCondition] [])
          (hubNamespace exampleReconciler,
           formatFleetUniqueName exampleEnv (memberClusterID exampleReconciler)
             sliceDeletedUnlabelled) = None"
    by (simp add: sliceWorld_def emptyWorld_def slice_facts)
  from t q show ?thesis
    unfolding n h slice_facts(17)
    using slice_facts(14) slice_facts(2) slice_facts(5) slice_facts(11) valid_example
    by auto
qed

text \<open>The claim as stated fails: the slice below has the service-name label and no
  unique-name label, its ServiceExport is valid with no conflict, and the policy
  finds it permanently unexportable; the outcome is Skip.\<close>

theorem unlabelled_deleted_slice_counterexample:
  "Labels sliceDeletedUnlabelledIPv6 LabelServiceName = Some ''store''
   \<and> Labels sliceDeletedUnlabelledIPv6 endpointSliceUniqueNameLabel = None
   \<and> DeletionTimestamp sliceDeletedUnlabelledIPv6 = Some 3
   \<and> lookupGoverningIntent
        (sliceWorld sliceDeletedUnlabelledIPv6 [validCondition, noConflictCondition] [])
        sliceDeletedUnlabelledIPv6
      = Inr (svcExportOf ''default'' ''store'' [''cleanup''] None [validCondition, noConflictCondition])
   \<and> isValidWithNoConflict exampleEnv
        (svcExportOf ''default'' ''store'' [''cleanup''] None [validCondition, noConflictCondition])
   \<and> isEndpointSlicePermanentlyUnexportable exampleEnv sliceDeletedUnlabelledIPv6
   \<and> fst (shouldSkipOrUnexportEndpointSlice exampleEnv
        (sliceWorld sliceDeletedUnlabelledIPv6 [validCondition, noConflictCondition] [])
        sliceDeletedUnlabelledIPv6)
      = (shouldSkipEndpointSliceOp, None)"
proof -
  note g = lookup_sliceWorld [OF slice_facts(3) slice_facts(9),
      of sliceDeletedUnlabelledIPv6 "[validCondition, noConflictCondition]"]
  have l: "lookupGoverningIntent
        (sliceWorld sliceDeletedUnlabelledIPv6 [validCondition, noConflictCondition] [])
        sliceDeletedUnlabelledIPv6
      = Inr (svcExportOf ''default'' ''store'' [''cleanup''] None [validCondition, noConflictCondition])"
    using g by (simp add: lookupGoverningIntent_def slice_facts)
  have d: "fst (shouldSkipOrUnexportEndpointSlice exampleEnv
        (sliceWorld sliceDeletedUnlabelledIPv6 [validCondition, noConflictCondition] [])
        sliceDeletedUnlabelledIPv6)
      = (shouldSkipEndpointSliceOp, None)"
    by (simp add: shouldSkipOrUnexportEndpointSlice_def slice_facts)
  show ?thesis using l d valid_example by (simp add: slice_facts)
qed

end
